theory Spec2Isabelle
  imports Complex_Main
begin

section \<open>Exceptions, effects and the call trace\<close>

text \<open>
  The exceptions the transfer code distinguishes.  Each value carries the text that
  \<^verbatim>\<open>str(e)\<close> yields.  \<open>FileNotFoundError\<close> and \<open>PermissionError\<close> are the two
  subclasses of \<open>OSError\<close> that the handlers name; \<open>IOError\<close> stands for every other
  \<open>OSError\<close> (in Python 3 \<open>IOError\<close> is an alias of \<open>OSError\<close>); \<open>OtherException\<close>
  stands for every remaining subclass of \<open>Exception\<close> a collaborator may raise.
\<close>

datatype exn =
    FileNotFoundError string
  | PermissionError string
  | IOError string
  | RuntimeError string
  | NameError string
  | OtherException string

fun str :: "exn \<Rightarrow> string" where
  "str (FileNotFoundError m) = m"
| "str (PermissionError m) = m"
| "str (IOError m) = m"
| "str (RuntimeError m) = m"
| "str (NameError m) = m"
| "str (OtherException m) = m"

text \<open>\<^verbatim>\<open>except IOError\<close> catches \<open>OSError\<close> and its subclasses.\<close>

fun is_IOError :: "exn \<Rightarrow> bool" where
  "is_IOError (FileNotFoundError m) = True"
| "is_IOError (PermissionError m) = True"
| "is_IOError (IOError m) = True"
| "is_IOError (RuntimeError m) = False"
| "is_IOError (NameError m) = False"
| "is_IOError (OtherException m) = False"

fun is_expected :: "exn \<Rightarrow> bool" where
  "is_expected (FileNotFoundError m) = True"
| "is_expected (PermissionError m) = True"
| "is_expected (IOError m) = False"
| "is_expected (RuntimeError m) = False"
| "is_expected (NameError m) = False"
| "is_expected (OtherException m) = False"

type_synonym path = string

text \<open>
  The calls that change the world: the methods of the duck-typed \<^verbatim>\<open>sftp\<close> object
  (\<open>Put\<close>, \<open>Get\<close>, \<open>Rename\<close>, \<open>Remove\<close>, \<open>Mkdir\<close>, \<open>Chdir\<close>) and the local
  \<^verbatim>\<open>os\<close> calls (\<open>Makedirs\<close> is \<^verbatim>\<open>os.makedirs(p, exist_ok=True)\<close>, \<open>Replace\<close> is
  \<^verbatim>\<open>os.replace\<close>, \<open>OsRemove\<close> is \<^verbatim>\<open>os.remove\<close>).
\<close>

datatype op =
    Put path path
  | Get path path
  | Rename path path
  | Remove path
  | Mkdir path
  | Chdir path
  | Makedirs path
  | Replace path path
  | OsRemove path

datatype event = Call op "exn + unit" | Print string

text \<open>
  File metadata as the scanners record it: the tuple \<^verbatim>\<open>(st_mode, st_size, st_mtime)\<close>.
  A modification time is the rational number that the stored value denotes (the local
  \<^verbatim>\<open>st_mtime\<close> is a float, the remote one an integer).  Comparing two of them is
  exact in Python; subtracting them is not, see \<open>float_sub\<close> below.
\<close>

type_synonym meta = "nat \<times> nat \<times> rat"

text \<open>
  What a scan can see.  A local entry is a non-directory name with the outcome of
  \<^verbatim>\<open>os.stat\<close> on it, a directory that \<^verbatim>\<open>os.walk\<close> enumerates, or a directory
  that it does not enumerate (its \<^verbatim>\<open>scandir\<close> fails, or it is a symbolic link to a
  directory).  A remote entry is an attribute record that is not a directory
  (\<^verbatim>\<open>S_ISDIR(st_mode)\<close> is false), a directory with its listing, or a directory whose
  \<^verbatim>\<open>listdir_attr\<close> raises.
\<close>

datatype ltree =
    LFile string "exn + meta"
  | LDir string "ltree list"
  | LSkipped string

datatype rtree =
    RFile string meta
  | RDir string "rtree list"
  | RDenied string exn

text \<open>
  The collaborators are not part of the repository; they are parameters of the model.
  \<open>exec\<close> gives, for every call and every world, the outcome of the call (an exception
  or a normal return) and the world after it; \<open>os_path_isdir\<close> is the query
  \<^verbatim>\<open>os.path.isdir\<close> and \<open>os_getcwd\<close> the current directory that
  \<^verbatim>\<open>os.path.relpath\<close> reads.  \<open>os_walk\<close> is the tree \<^verbatim>\<open>os.walk\<close> finds under a
  path (\<open>None\<close> when the path itself cannot be enumerated) and \<open>listdir_tree\<close> the tree
  that repeated \<^verbatim>\<open>sftp.listdir_attr\<close> calls find under a remote path (an exception
  when the call on the path itself raises).  \<open>float_sub\<close> is the value of the Python
  expression \<^verbatim>\<open>ltime - rtime\<close> on two time stamps: a floating-point subtraction, which
  rounds its result, so it need not be the exact difference.  The type \<open>'w\<close> of worlds is
  arbitrary.
\<close>

record 'w env =
  exec :: "op \<Rightarrow> 'w \<Rightarrow> (exn + unit) \<times> 'w"
  os_path_isdir :: "path \<Rightarrow> 'w \<Rightarrow> bool"
  os_getcwd :: "'w \<Rightarrow> path"
  os_walk :: "path \<Rightarrow> 'w \<Rightarrow> ltree list option"
  listdir_tree :: "path \<Rightarrow> 'w \<Rightarrow> exn + rtree list"
  float_sub :: "rat \<Rightarrow> rat \<Rightarrow> rat"

text \<open>
  A piece of code takes the world and yields its outcome (an exception or a value), the
  world after it, and the events it produced in order: every call made, with its
  outcome, and every line printed.
\<close>

type_synonym ('w, 'a) py = "'w \<Rightarrow> (exn + 'a) \<times> 'w \<times> event list"

definition py_return :: "'a \<Rightarrow> ('w, 'a) py" where
  "py_return a w = (Inr a, w, [])"

definition py_raise :: "exn \<Rightarrow> ('w, 'a) py" where
  "py_raise e w = (Inl e, w, [])"

definition py_bind :: "('w, 'a) py \<Rightarrow> ('a \<Rightarrow> ('w, 'b) py) \<Rightarrow> ('w, 'b) py" where
  "py_bind m f w =
     (case m w of
        (Inl e, w', evs) \<Rightarrow> (Inl e, w', evs)
      | (Inr a, w', evs) \<Rightarrow> (case f a w' of (r, w'', evs') \<Rightarrow> (r, w'', evs @ evs')))"

definition py_seq :: "('w, 'a) py \<Rightarrow> ('w, 'b) py \<Rightarrow> ('w, 'b) py" where
  "py_seq m n = py_bind m (\<lambda>_. n)"

text \<open>\<^verbatim>\<open>try: m  except ...: h e\<close>; an exception raised by the handler propagates.\<close>

definition py_try :: "('w, 'a) py \<Rightarrow> (exn \<Rightarrow> ('w, 'a) py) \<Rightarrow> ('w, 'a) py" where
  "py_try m h w =
     (case m w of
        (Inl e, w', evs) \<Rightarrow> (case h e w' of (r, w'', evs') \<Rightarrow> (r, w'', evs @ evs'))
      | (Inr a, w', evs) \<Rightarrow> (Inr a, w', evs))"

text \<open>\<^verbatim>\<open>try: m  except Exception: pass\<close>\<close>

definition swallow :: "('w, unit) py \<Rightarrow> ('w, unit) py" where
  "swallow m = py_try m (\<lambda>e. py_return ())"

text \<open>\<^verbatim>\<open>try: m  except IOError: pass\<close>\<close>

definition swallow_IOError :: "('w, unit) py \<Rightarrow> ('w, unit) py" where
  "swallow_IOError m = py_try m (\<lambda>e. if is_IOError e then py_return () else py_raise e)"

definition call :: "'w env \<Rightarrow> op \<Rightarrow> ('w, unit) py" where
  "call E c w = (case exec E c w of (r, w') \<Rightarrow> (r, w', [Call c r]))"

definition print :: "string \<Rightarrow> ('w, unit) py" where
  "print line w = (Inr (), w, [Print line])"

section \<open>Path functions of \<^verbatim>\<open>os.path\<close> (POSIX)\<close>

definition endswith_slash :: "string \<Rightarrow> bool" where
  "endswith_slash p = (p \<noteq> [] \<and> last p = CHR ''/'')"

definition startswith :: "string \<Rightarrow> string \<Rightarrow> bool" where
  "startswith p pre = (take (length pre) p = pre)"

definition rstrip_slash :: "string \<Rightarrow> string" where
  "rstrip_slash p = rev (dropWhile (\<lambda>c. c = CHR ''/'') (rev p))"

text \<open>\<^verbatim>\<open>i = p.rfind('/') + 1; return p[i:]\<close>\<close>

definition basename :: "path \<Rightarrow> string" where
  "basename p = rev (takeWhile (\<lambda>c. c \<noteq> CHR ''/'') (rev p))"

text \<open>
  \<^verbatim>\<open>head = p[:i]; if head and head != '/'*len(head): head = head.rstrip('/')\<close>
\<close>

definition dirname :: "path \<Rightarrow> string" where
  "dirname p =
     (let head = rev (dropWhile (\<lambda>c. c \<noteq> CHR ''/'') (rev p))
      in if head \<noteq> [] \<and> \<not> list_all (\<lambda>c. c = CHR ''/'') head
         then rstrip_slash head else head)"

text \<open>\<^verbatim>\<open>os.path.join(a, b)\<close> with two arguments.\<close>

definition join :: "path \<Rightarrow> path \<Rightarrow> path" where
  "join a b =
     (if startswith b ''/'' then b
      else if a = [] \<or> endswith_slash a then a @ b
      else a @ ''/'' @ b)"

text \<open>\<^verbatim>\<open>s.split('/')\<close>\<close>

fun split_slash :: "string \<Rightarrow> string list" where
  "split_slash [] = [[]]"
| "split_slash (c # cs) =
     (if c = CHR ''/'' then [] # split_slash cs
      else (case split_slash cs of
              [] \<Rightarrow> [[c]]
            | x # xs \<Rightarrow> (c # x) # xs))"

text \<open>
  \<^verbatim>\<open>pathlib.Path(p).parts\<close> for a POSIX path: the root (\<open>/\<close>, or \<open>//\<close> for exactly
  two leading slashes) followed by the components that are neither empty nor \<open>.\<close>.
\<close>

definition path_root :: "path \<Rightarrow> string" where
  "path_root p =
     (if startswith p ''//'' \<and> \<not> startswith p ''///'' then ''//''
      else if startswith p ''/'' then ''/''
      else [])"

definition parts :: "path \<Rightarrow> string list" where
  "parts p =
     (if path_root p = [] then [] else [path_root p])
     @ filter (\<lambda>c. c \<noteq> [] \<and> c \<noteq> ''.'') (split_slash p)"

text \<open>\<^verbatim>\<open>'/'.join(xs)\<close>\<close>

fun join_slash :: "string list \<Rightarrow> string" where
  "join_slash [] = []"
| "join_slash [x] = x"
| "join_slash (x # y # ys) = x @ ''/'' @ join_slash (y # ys)"

text \<open>
  \<^verbatim>\<open>str(p) for p in reversed(Path(q).parents)\<close>: the proper prefixes of the parts of
  \<open>q\<close>, shortest first; the empty relative prefix prints as \<open>.\<close>.
\<close>

definition components :: "path \<Rightarrow> string list" where
  "components p = filter (\<lambda>c. c \<noteq> [] \<and> c \<noteq> ''.'') (split_slash p)"

definition path_str :: "string \<Rightarrow> string list \<Rightarrow> string" where
  "path_str anchor cs = (if anchor = [] \<and> cs = [] then ''.'' else anchor @ join_slash cs)"

definition parents_reversed :: "path \<Rightarrow> path list" where
  "parents_reversed q =
     map (\<lambda>k. path_str (path_root q) (take k (components q))) [0..<length (components q)]"

text \<open>\<^verbatim>\<open>os.path.normpath\<close>\<close>

definition norm_step :: "nat \<Rightarrow> string list \<Rightarrow> string \<Rightarrow> string list" where
  "norm_step initial_slashes new_comps part =
     (if part = [] \<or> part = ''.'' then new_comps
      else if part \<noteq> ''..'' \<or> (initial_slashes = 0 \<and> new_comps = [])
              \<or> (new_comps \<noteq> [] \<and> last new_comps = ''..'')
           then new_comps @ [part]
      else if new_comps \<noteq> [] then butlast new_comps
      else new_comps)"

definition initial_slashes :: "path \<Rightarrow> nat" where
  "initial_slashes p =
     (if startswith p ''/''
      then (if startswith p ''//'' \<and> \<not> startswith p ''///'' then 2 else 1)
      else 0)"

definition normpath :: "path \<Rightarrow> path" where
  "normpath p =
     (if p = [] then ''.''
      else let comps = foldl (norm_step (initial_slashes p)) [] (split_slash p);
               q = replicate (initial_slashes p) CHR ''/'' @ join_slash comps
           in if q = [] then ''.'' else q)"

text \<open>\<^verbatim>\<open>os.path.abspath\<close> and \<^verbatim>\<open>os.path.relpath\<close>, given the current directory.\<close>

definition abspath :: "path \<Rightarrow> path \<Rightarrow> path" where
  "abspath cwd p = normpath (if startswith p ''/'' then p else join cwd p)"

fun common_prefix :: "string list \<Rightarrow> string list \<Rightarrow> string list" where
  "common_prefix (x # xs) (y # ys) = (if x = y then x # common_prefix xs ys else [])"
| "common_prefix xs ys = []"

definition relpath :: "path \<Rightarrow> path \<Rightarrow> path \<Rightarrow> exn + path" where
  "relpath cwd p start =
     (if p = [] then Inl (OtherException ''no path specified'')
      else let start_list = filter (\<lambda>x. x \<noteq> []) (split_slash (abspath cwd start));
               path_list = filter (\<lambda>x. x \<noteq> []) (split_slash (abspath cwd p));
               i = length (common_prefix start_list path_list);
               rel_list = replicate (length start_list - i) ''..'' @ drop i path_list
           in Inr (if rel_list = [] then ''.'' else join_slash rel_list))"

section \<open>Glob matching: \<^verbatim>\<open>fnmatch.fnmatch\<close> on POSIX\<close>

text \<open>
  A pattern is read left to right: \<open>*\<close> matches any run of characters (the slash
  included), \<open>?\<close> any one character, \<open>[seq]\<close> one character of the class and \<open>[!seq]\<close>
  one character outside it; a \<open>]\<close> directly after the opening is a member, and an
  opening bracket with no closing one is a literal.  Inside a class \<open>lo-hi\<close> is a range.
  The whole name must match.
\<close>

datatype tok = Star | AnyChar | Lit char | Class bool string

fun class_end :: "string \<Rightarrow> (string \<times> string) option" where
  "class_end [] = None"
| "class_end (c # cs) =
     (if c = CHR '']'' then Some ([], cs)
      else (case class_end cs of
              None \<Rightarrow> None
            | Some (stuff, rest) \<Rightarrow> Some (c # stuff, rest)))"

definition bracket :: "string \<Rightarrow> (bool \<times> string \<times> string) option" where
  "bracket ps =
     (let neg = startswith ps ''!''; ps1 = (if neg then tl ps else ps)
      in case ps1 of
           [] \<Rightarrow> None
         | c # cs \<Rightarrow>
             (if c = CHR '']''
              then (case class_end cs of
                      None \<Rightarrow> None
                    | Some (stuff, rest) \<Rightarrow> Some (neg, c # stuff, rest))
              else (case class_end ps1 of
                      None \<Rightarrow> None
                    | Some (stuff, rest) \<Rightarrow> Some (neg, stuff, rest))))"

fun in_class :: "string \<Rightarrow> char \<Rightarrow> bool" where
  "in_class (lo # d # hi # rest) c =
     (if d = CHR ''-''
      then ((of_char lo :: nat) \<le> of_char c \<and> (of_char c :: nat) \<le> of_char hi)
           \<or> in_class rest c
      else lo = c \<or> in_class (d # hi # rest) c)"
| "in_class (x # rest) c = (x = c \<or> in_class rest c)"
| "in_class [] c = False"

lemma class_end_length: "class_end cs = Some (stuff, rest) \<Longrightarrow> length rest < length cs"
  by (induction cs arbitrary: stuff rest) (auto split: if_splits option.splits)

lemma bracket_length: "bracket ps = Some (neg, stuff, rest) \<Longrightarrow> length rest < length ps"
  by (cases ps)
     (auto simp: bracket_def Let_def startswith_def
           split: list.splits if_splits option.splits dest!: class_end_length)

function tokens :: "string \<Rightarrow> tok list" where
  "tokens [] = []"
| "tokens (p # ps) =
     (if p = CHR ''*'' then Star # tokens ps
      else if p = CHR ''?'' then AnyChar # tokens ps
      else if p = CHR ''[''
           then (case bracket ps of
                   None \<Rightarrow> Lit p # tokens ps
                 | Some (neg, stuff, rest) \<Rightarrow> Class neg stuff # tokens rest)
      else Lit p # tokens ps)"
  by pat_completeness auto
termination
  by (relation "measure length") (auto dest: bracket_length)


fun match :: "tok list \<Rightarrow> string \<Rightarrow> bool" where
  "match [] name = (name = [])"
| "match (Star # ts) [] = match ts []"
| "match (Star # ts) (c # cs) = (match ts (c # cs) \<or> match (Star # ts) cs)"
| "match (AnyChar # ts) [] = False"
| "match (AnyChar # ts) (c # cs) = match ts cs"
| "match (Lit x # ts) [] = False"
| "match (Lit x # ts) (c # cs) = (c = x \<and> match ts cs)"
| "match (Class neg stuff # ts) [] = False"
| "match (Class neg stuff # ts) (c # cs) = (in_class stuff c \<noteq> neg \<and> match ts cs)"

text \<open>\<^verbatim>\<open>fnmatch.fnmatch(name, pat)\<close>; on POSIX \<^verbatim>\<open>normcase\<close> changes nothing.\<close>

definition fnmatch :: "string \<Rightarrow> string \<Rightarrow> bool" where
  "fnmatch name pat = match (tokens pat) name"

section \<open>The atomic transfer engine\<close>

subsection \<open>\<^verbatim>\<open>atomic_download\<close>\<close>

text \<open>The three path adjustments before the temporary name is formed.\<close>

definition download_target :: "'w env \<Rightarrow> path \<Rightarrow> path \<Rightarrow> 'w \<Rightarrow> path" where
  "download_target E remote_path local_path w =
     (let lp1 = (if os_path_isdir E local_path w
                 then join local_path (basename remote_path) else local_path);
          lp2 = (if endswith_slash lp1 \<or> basename lp1 = []
                 then join lp1 (basename remote_path) else lp1);
          lp3 = (if basename lp2 = [] then lp2 @ ''.tmp'' else lp2)
      in lp3)"

text \<open>The lines printed and the message of the error raised by \<^verbatim>\<open>atomic_download\<close>.\<close>

definition downloaded_line :: "path \<Rightarrow> path \<Rightarrow> string" where
  "downloaded_line remote_path local_path =
     ''Downloaded '' @ remote_path @ '' to '' @ local_path"

definition remote_not_found_line :: "path \<Rightarrow> string" where
  "remote_not_found_line remote_path = ''Error: Remote file not found: '' @ remote_path"

definition remote_denied_line :: "path \<Rightarrow> string" where
  "remote_denied_line remote_path =
     ''Error: Permission denied for remote file: '' @ remote_path"

definition download_error_line :: "path \<Rightarrow> path \<Rightarrow> exn \<Rightarrow> string" where
  "download_error_line remote_path local_path e =
     ''Error downloading '' @ remote_path @ '' to '' @ local_path @ '': '' @ str e"

definition download_failed_message :: "path \<Rightarrow> path \<Rightarrow> exn \<Rightarrow> string" where
  "download_failed_message remote_path local_path e =
     ''Failed to download '' @ remote_path @ '' to '' @ local_path @ '': '' @ str e"

definition download_body :: "'w env \<Rightarrow> path \<Rightarrow> path \<Rightarrow> ('w, unit) py" where
  "download_body E remote_path local_path =
     (let tmp = local_path @ ''.tmp''; local_dir = dirname local_path
      in py_seq (if local_dir \<noteq> [] \<and> local_dir \<noteq> ''.''
                 then call E (Makedirs local_dir) else py_return ())
        (py_seq (call E (Get remote_path tmp))
        (py_seq (call E (Replace tmp local_path))
                (print (downloaded_line remote_path local_path)))))"

definition download_handler :: "'w env \<Rightarrow> path \<Rightarrow> path \<Rightarrow> exn \<Rightarrow> ('w, unit) py" where
  "download_handler E remote_path local_path e =
     (case e of
        FileNotFoundError m \<Rightarrow> print (remote_not_found_line remote_path)
      | PermissionError m \<Rightarrow> print (remote_denied_line remote_path)
      | _ \<Rightarrow>
          py_seq (print (download_error_line remote_path local_path e))
         (py_seq (swallow (call E (OsRemove (local_path @ ''.tmp''))))
                 (py_raise (RuntimeError
                    (download_failed_message remote_path local_path e)))))"

definition atomic_download :: "'w env \<Rightarrow> path \<Rightarrow> path \<Rightarrow> ('w, unit) py" where
  "atomic_download E remote_path local_path0 w =
     (let local_path = download_target E remote_path local_path0 w
      in py_try (download_body E remote_path local_path)
                (download_handler E remote_path local_path) w)"

subsection \<open>\<^verbatim>\<open>atomic_upload\<close>\<close>

definition upload_target :: "path \<Rightarrow> path \<Rightarrow> path" where
  "upload_target local_path remote_path =
     (let rp1 = (if endswith_slash remote_path \<or> basename remote_path = []
                 then join remote_path (basename local_path) else remote_path);
          rp2 = (if basename rp1 = [] then rp1 @ ''.tmp'' else rp1)
      in rp2)"

text \<open>
  The loop over \<^verbatim>\<open>Path(remote_dir).parts\<close>: \<open>current_path\<close> grows by one part per
  round, and each \<^verbatim>\<open>mkdir\<close> swallows \<open>IOError\<close> only.
\<close>

fun mkdir_parts :: "'w env \<Rightarrow> path \<Rightarrow> string list \<Rightarrow> ('w, unit) py" where
  "mkdir_parts E current_path [] = py_return ()"
| "mkdir_parts E current_path (part # rest) =
     (let current_path' = (if current_path \<noteq> [] then join current_path part else part)
      in py_seq (swallow_IOError (call E (Mkdir current_path')))
                (mkdir_parts E current_path' rest))"

definition ensure_remote_dir :: "'w env \<Rightarrow> path \<Rightarrow> ('w, unit) py" where
  "ensure_remote_dir E remote_path =
     (let remote_dir = dirname remote_path
      in if remote_dir \<noteq> [] \<and> remote_dir \<noteq> ''.''
         then py_try (call E (Chdir remote_dir))
                (\<lambda>e. if is_IOError e then mkdir_parts E [] (parts remote_dir)
                      else py_raise e)
         else py_return ())"

text \<open>
  The rename step with its fallbacks.  The result is \<open>True\<close> when control falls through
  to the confirmation line and \<open>False\<close> when the function returns from inside the
  fallback (the \<^verbatim>\<open>return\<close> after the direct \<^verbatim>\<open>put\<close>).
\<close>

definition aggregated_message :: "exn \<Rightarrow> exn \<Rightarrow> string" where
  "aggregated_message rename_exc put_exc =
     ''Failed to move uploaded temp file to final path: rename error: '' @ str rename_exc
     @ ''; fallback put error: '' @ str put_exc"

definition move_tmp :: "'w env \<Rightarrow> path \<Rightarrow> path \<Rightarrow> path \<Rightarrow> ('w, bool) py" where
  "move_tmp E local_path remote_path tmp =
     py_try (py_seq (call E (Rename tmp remote_path)) (py_return True))
       (\<lambda>rename_exc.
          py_seq (swallow (call E (Remove remote_path)))
            (py_try (py_seq (call E (Rename tmp remote_path)) (py_return True))
               (\<lambda>_. py_try
                       (py_seq (swallow (call E (Remove tmp)))
                       (py_seq (call E (Put local_path remote_path)) (py_return False)))
                       (\<lambda>put_exc.
                          py_seq (swallow (call E (Remove tmp)))
                                 (py_raise (RuntimeError
                                    (aggregated_message rename_exc put_exc)))))))"

definition uploaded_line :: "path \<Rightarrow> path \<Rightarrow> string" where
  "uploaded_line local_path remote_path = ''Uploaded '' @ local_path @ '' to '' @ remote_path"

definition upload_denied_line :: "path \<Rightarrow> string" where
  "upload_denied_line remote_path =
     ''Error: Permission denied for remote path: '' @ remote_path"

definition local_not_found_line :: "path \<Rightarrow> string" where
  "local_not_found_line local_path = ''Error: Local file not found: '' @ local_path"

definition upload_error_line :: "path \<Rightarrow> path \<Rightarrow> exn \<Rightarrow> string" where
  "upload_error_line local_path remote_path e =
     ''Error uploading '' @ local_path @ '' to '' @ remote_path @ '': '' @ str e"

definition upload_body :: "'w env \<Rightarrow> path \<Rightarrow> path \<Rightarrow> ('w, unit) py" where
  "upload_body E local_path remote_path =
     (let tmp = remote_path @ ''.tmp''
      in py_seq (ensure_remote_dir E remote_path)
        (py_seq (call E (Put local_path tmp))
        (py_bind (move_tmp E local_path remote_path tmp)
           (\<lambda>fell_through.
              if fell_through
              then print (uploaded_line local_path remote_path)
              else py_return ()))))"

definition upload_handler :: "'w env \<Rightarrow> path \<Rightarrow> path \<Rightarrow> exn \<Rightarrow> ('w, unit) py" where
  "upload_handler E local_path remote_path e =
     (case e of
        PermissionError m \<Rightarrow> print (upload_denied_line remote_path)
      | FileNotFoundError m \<Rightarrow> print (local_not_found_line local_path)
      | _ \<Rightarrow>
          py_seq (swallow (call E (Remove (remote_path @ ''.tmp''))))
                 (print (upload_error_line local_path remote_path e)))"

definition atomic_upload :: "'w env \<Rightarrow> path \<Rightarrow> path \<Rightarrow> ('w, unit) py" where
  "atomic_upload E local_path remote_path0 =
     (let remote_path = upload_target local_path remote_path0
      in py_try (upload_body E local_path remote_path)
                (upload_handler E local_path remote_path))"


section \<open>The metadata scanners\<close>

text \<open>
  A tree mapping is a Python \<^verbatim>\<open>dict\<close>: keys are unique and keep their insertion order;
  assigning to a key that exists replaces its value in place.
\<close>

type_synonym tree_mapping = "(path \<times> meta) list"

fun dict_set :: "('k \<times> 'v) list \<Rightarrow> 'k \<Rightarrow> 'v \<Rightarrow> ('k \<times> 'v) list" where
  "dict_set [] k v = [(k, v)]"
| "dict_set ((k', v') # d) k v =
     (if k' = k then (k, v) # d else (k', v') # dict_set d k v)"

subsection \<open>\<^verbatim>\<open>list_local\<close>\<close>

text \<open>
  The inner loop over \<open>files\<close> for one directory of the walk.  \<open>relroot\<close> is
  \<^verbatim>\<open>os.path.relpath(root, path)\<close>; the outcome of \<^verbatim>\<open>os.stat(os.path.join(root, f))\<close>
  is the one the tree holds for \<open>f\<close>, and a failing \<^verbatim>\<open>os.stat\<close> ends the scan.
\<close>

fun record_files :: "path \<Rightarrow> ltree list \<Rightarrow> tree_mapping \<Rightarrow> exn + tree_mapping" where
  "record_files relroot [] results = Inr results"
| "record_files relroot (LFile f st # rest) results =
     (let relfile0 = normpath (join relroot f);
          relfile = (if startswith relfile0 ''..'' then f else relfile0)
      in case st of
           Inl e \<Rightarrow> Inl e
         | Inr m \<Rightarrow> record_files relroot rest (dict_set results relfile m))"
| "record_files relroot (LDir d kids # rest) results = record_files relroot rest results"
| "record_files relroot (LSkipped d # rest) results = record_files relroot rest results"

text \<open>
  \<^verbatim>\<open>os.walk(path)\<close>, top down: the files of a directory are handled before the walk
  descends into its subdirectories; \<open>rootdir\<close> is the walked directory \<^verbatim>\<open>root\<close>, built with
  \<^verbatim>\<open>os.path.join\<close>.  A directory that cannot be enumerated yields nothing and raises
  nothing (the default \<^verbatim>\<open>onerror=None\<close>).
\<close>

fun walk_local :: "path \<Rightarrow> path \<Rightarrow> path \<Rightarrow> ltree list \<Rightarrow> tree_mapping \<Rightarrow> exn + tree_mapping"
  and walk_subdirs :: "path \<Rightarrow> path \<Rightarrow> path \<Rightarrow> ltree list \<Rightarrow> tree_mapping \<Rightarrow> exn + tree_mapping"
where
  "walk_local cwd base rootdir entries results =
     (case relpath cwd rootdir base of
        Inl e \<Rightarrow> Inl e
      | Inr relroot \<Rightarrow>
          (case record_files relroot entries results of
             Inl e \<Rightarrow> Inl e
           | Inr results1 \<Rightarrow> walk_subdirs cwd base rootdir entries results1))"
| "walk_subdirs cwd base rootdir [] results = Inr results"
| "walk_subdirs cwd base rootdir (LDir d kids # rest) results =
     (case walk_local cwd base (join rootdir d) kids results of
        Inl e \<Rightarrow> Inl e
      | Inr results1 \<Rightarrow> walk_subdirs cwd base rootdir rest results1)"
| "walk_subdirs cwd base rootdir (LFile f st # rest) results =
     walk_subdirs cwd base rootdir rest results"
| "walk_subdirs cwd base rootdir (LSkipped d # rest) results =
     walk_subdirs cwd base rootdir rest results"

definition list_local :: "'w env \<Rightarrow> path \<Rightarrow> 'w \<Rightarrow> exn + tree_mapping" where
  "list_local E path w =
     (case os_walk E path w of
        None \<Rightarrow> Inr []
      | Some entries \<Rightarrow> walk_local (os_getcwd E w) path path entries [])"

subsection \<open>\<^verbatim>\<open>list_remote\<close>\<close>

text \<open>
  The nested \<^verbatim>\<open>_walk(rdir, rel)\<close>.  The key recorded is \<open>rfile\<close>, the entry's name
  joined onto the walked directory; \<open>rel\<close> is carried along and never used as a key.
\<close>

fun walk_remote :: "path \<Rightarrow> path \<Rightarrow> rtree list \<Rightarrow> tree_mapping \<Rightarrow> exn + tree_mapping" where
  "walk_remote rdir rel [] results = Inr results"
| "walk_remote rdir rel (RFile name m # rest) results =
     walk_remote rdir rel rest (dict_set results (join rdir name) m)"
| "walk_remote rdir rel (RDir name kids # rest) results =
     (case walk_remote (join rdir name) (join rel name) kids results of
        Inl e \<Rightarrow> Inl e
      | Inr results1 \<Rightarrow> walk_remote rdir rel rest results1)"
| "walk_remote rdir rel (RDenied name e # rest) results = Inl e"

definition list_remote :: "'w env \<Rightarrow> path \<Rightarrow> 'w \<Rightarrow> exn + tree_mapping" where
  "list_remote E path w =
     (case listdir_tree E path w of
        Inl e \<Rightarrow> Inl e
      | Inr entries \<Rightarrow> walk_remote path [] entries [])"

subsection \<open>What a scan meets\<close>

text \<open>
  A remote tree holds a directory that cannot be listed; a local tree with the
  directories the walk does not enumerate taken away; a local tree in which
  \<^verbatim>\<open>os.stat\<close> succeeds on every file the walk reaches.
\<close>

fun has_denied :: "rtree list \<Rightarrow> bool" where
  "has_denied [] = False"
| "has_denied (RFile name m # rest) = has_denied rest"
| "has_denied (RDir name kids # rest) = (has_denied kids \<or> has_denied rest)"
| "has_denied (RDenied name e # rest) = True"

fun prune :: "ltree list \<Rightarrow> ltree list" where
  "prune [] = []"
| "prune (LFile f st # rest) = LFile f st # prune rest"
| "prune (LDir d kids # rest) = LDir d (prune kids) # prune rest"
| "prune (LSkipped d # rest) = prune rest"

fun stats_ok :: "ltree list \<Rightarrow> bool" where
  "stats_ok [] = True"
| "stats_ok (LFile f (Inl e) # rest) = False"
| "stats_ok (LFile f (Inr m) # rest) = stats_ok rest"
| "stats_ok (LDir d kids # rest) = (stats_ok kids \<and> stats_ok rest)"
| "stats_ok (LSkipped d # rest) = stats_ok rest"

section \<open>The sync entry points\<close>

text \<open>
  \<open>include\<close> and \<open>exclude\<close> are lists of patterns; \<^verbatim>\<open>None\<close> and the empty list are
  both the empty list here (the code only tests their truth value).  The parameter
  \<^verbatim>\<open>recursive\<close> is read by none of the three functions and is left out.
\<close>

definition py_lift :: "exn + 'a \<Rightarrow> ('w, 'a) py" where
  "py_lift r w = (r, w, [])"

text \<open>A \<^verbatim>\<open>for\<close> loop: an exception raised by the body ends the loop.\<close>

fun py_for :: "('a \<Rightarrow> ('w, unit) py) \<Rightarrow> 'a list \<Rightarrow> ('w, unit) py" where
  "py_for body [] = py_return ()"
| "py_for body (x # xs) = py_seq (body x) (py_for body xs)"

text \<open>\<^verbatim>\<open>any(fnmatch.fnmatch(fname, pat) for pat in pats)\<close>\<close>

definition any_match :: "string \<Rightarrow> string list \<Rightarrow> bool" where
  "any_match fname pats = list_ex (fnmatch fname) pats"

subsection \<open>\<^verbatim>\<open>sync_push\<close>\<close>

text \<open>
  \<^verbatim>\<open>sync_push\<close> binds \<open>rel\<close>, not \<open>rel_path\<close>; there is no global of that name either.
  In \<^verbatim>\<open>fnmatch.fnmatch(fname, pat) or fnmatch.fnmatch(rel_path, pat)\<close> the right
  operand is evaluated only when the left one is false, and evaluating it raises
  \<open>NameError\<close>.  \<^verbatim>\<open>any\<close> stops at the first true element.
\<close>

definition rel_path_unbound :: exn where
  "rel_path_unbound = NameError ''name rel_path is not defined''"

definition push_test :: "string \<Rightarrow> string \<Rightarrow> exn + bool" where
  "push_test fname pat = (if fnmatch fname pat then Inr True else Inl rel_path_unbound)"

fun py_any :: "(exn + bool) list \<Rightarrow> exn + bool" where
  "py_any [] = Inr False"
| "py_any (Inl e # xs) = Inl e"
| "py_any (Inr b # xs) = (if b then Inr True else py_any xs)"

text \<open>The value of \<open>should_include\<close> after the two filter statements.\<close>

definition push_filter :: "string \<Rightarrow> string list \<Rightarrow> string list \<Rightarrow> exn + bool" where
  "push_filter fname include exclude =
     (case (if include \<noteq> [] then py_any (map (push_test fname) include) else Inr True) of
        Inl e \<Rightarrow> Inl e
      | Inr should_include \<Rightarrow>
          (if should_include \<and> exclude \<noteq> []
           then (case py_any (map (push_test fname) exclude) of
                   Inl e \<Rightarrow> Inl e
                 | Inr excluded \<Rightarrow> Inr (if excluded then False else should_include))
           else Inr should_include))"

definition push_mkdirs :: "'w env \<Rightarrow> path \<Rightarrow> ('w, unit) py" where
  "push_mkdirs E rfile =
     py_try (call E (Chdir (dirname rfile)))
       (\<lambda>e. if is_IOError e
             then py_for (\<lambda>p. swallow_IOError (call E (Mkdir p))) (parents_reversed rfile)
             else py_raise e)"

text \<open>The loop body.  \<open>should_include\<close> is computed and then not read.\<close>

definition push_step ::
  "'w env \<Rightarrow> path \<Rightarrow> path \<Rightarrow> string list \<Rightarrow> string list \<Rightarrow> path \<Rightarrow> ('w, unit) py" where
  "push_step E local_dir remote_dir include exclude rel =
     py_bind (py_lift (push_filter (basename rel) include exclude))
       (\<lambda>should_include.
          py_seq (push_mkdirs E (join remote_dir rel))
                 (atomic_upload E (join local_dir rel) (join remote_dir rel)))"

definition sync_push ::
  "'w env \<Rightarrow> path \<Rightarrow> path \<Rightarrow> string list \<Rightarrow> string list \<Rightarrow> ('w, unit) py" where
  "sync_push E local_dir remote_dir include exclude =
     py_bind (\<lambda>w. py_lift (list_local E local_dir w) w)
       (\<lambda>local_files.
          py_for (push_step E local_dir remote_dir include exclude) (map fst local_files))"

subsection \<open>\<^verbatim>\<open>sync_pull\<close>\<close>

text \<open>The loop body; \<open>remote_dir\<close> is the root with its trailing slashes stripped.\<close>

definition pull_step ::
  "'w env \<Rightarrow> path \<Rightarrow> path \<Rightarrow> string list \<Rightarrow> string list \<Rightarrow> path \<Rightarrow> ('w, unit) py" where
  "pull_step E remote_dir local_dir include exclude remote_path =
     (let fname = basename remote_path
      in if include \<noteq> [] \<and> \<not> any_match fname include then py_return ()
         else if exclude \<noteq> [] \<and> any_match fname exclude then py_return ()
         else py_bind (\<lambda>w. py_lift (relpath (os_getcwd E w) remote_path remote_dir) w)
                (\<lambda>rel_path.
                   let lfile = join local_dir rel_path
                   in py_seq (call E (Makedirs (dirname lfile)))
                             (atomic_download E remote_path lfile)))"

definition sync_pull ::
  "'w env \<Rightarrow> path \<Rightarrow> path \<Rightarrow> string list \<Rightarrow> string list \<Rightarrow> ('w, unit) py" where
  "sync_pull E remote_dir local_dir include exclude =
     py_bind (\<lambda>w. py_lift (list_remote E remote_dir w) w)
       (\<lambda>remote_files.
          py_for (pull_step E (rstrip_slash remote_dir) local_dir include exclude)
                 (map fst remote_files))"

subsection \<open>\<^verbatim>\<open>sync_bidirectional\<close>\<close>

text \<open>The loop that re-keys the remote mapping by \<^verbatim>\<open>os.path.relpath\<close>.\<close>

fun rekey :: "path \<Rightarrow> path \<Rightarrow> tree_mapping \<Rightarrow> tree_mapping \<Rightarrow> exn + tree_mapping" where
  "rekey cwd remote_dir [] remote_files = Inr remote_files"
| "rekey cwd remote_dir ((p, m) # raw) remote_files =
     (case relpath cwd p remote_dir of
        Inl e \<Rightarrow> Inl e
      | Inr rel_path \<Rightarrow> rekey cwd remote_dir raw (dict_set remote_files rel_path m))"

definition conflict_line :: "path \<Rightarrow> string" where
  "conflict_line rel = ''  conflict: kept '' @ rel @ ''.local and '' @ rel @ ''.remote''"

text \<open>
  The loop body.  With neither record present the code would index \<^verbatim>\<open>None\<close>, which
  raises \<open>TypeError\<close>.
\<close>

definition bidirectional_step ::
  "'w env \<Rightarrow> path \<Rightarrow> path \<Rightarrow> tree_mapping \<Rightarrow> tree_mapping \<Rightarrow> string list \<Rightarrow> string list
     \<Rightarrow> path \<Rightarrow> ('w, unit) py" where
  "bidirectional_step E local_dir remote_dir local_files remote_files include exclude rel =
     (let lfile = join local_dir rel;
          rfile = join remote_dir rel;
          lmeta = map_of local_files rel;
          rmeta = map_of remote_files rel;
          fname = basename rel
      in if include \<noteq> [] \<and> \<not> any_match fname include then py_return ()
         else if exclude \<noteq> [] \<and> any_match fname exclude then py_return ()
         else (case (lmeta, rmeta) of
                 (Some lm, None) \<Rightarrow> atomic_upload E lfile rfile
               | (None, Some rm) \<Rightarrow>
                   py_seq (call E (Makedirs (dirname lfile))) (atomic_download E rfile lfile)
               | (Some (lmode, lsize, ltime), Some (rmode, rsize, rtime)) \<Rightarrow>
                   (if \<bar>float_sub E ltime rtime\<bar> \<le> 5
                    then py_seq (atomic_download E rfile (lfile @ ''.remote''))
                                (print (conflict_line rel))
                    else if ltime > rtime then atomic_upload E lfile rfile
                    else atomic_download E rfile lfile)
               | (None, None) \<Rightarrow>
                   py_raise (OtherException ''NoneType object is not subscriptable'')))"

text \<open>
  \<open>all_files\<close> is a Python set; the order in which the loop visits it is not fixed by
  the code, so it is the parameter \<open>visit\<close> applied to the keys of both mappings.
\<close>

definition sync_bidirectional ::
  "'w env \<Rightarrow> (path list \<Rightarrow> path list) \<Rightarrow> path \<Rightarrow> path \<Rightarrow> string list \<Rightarrow> string list
     \<Rightarrow> ('w, unit) py" where
  "sync_bidirectional E visit local_dir remote_dir include exclude =
     py_bind (\<lambda>w. py_lift (list_local E local_dir w) w)
       (\<lambda>local_files.
     py_bind (\<lambda>w. py_lift (list_remote E remote_dir w) w)
       (\<lambda>remote_files_raw.
     py_bind (\<lambda>w. py_lift (rekey (os_getcwd E w) (rstrip_slash remote_dir)
                               remote_files_raw []) w)
       (\<lambda>remote_files.
          py_for (bidirectional_step E local_dir (rstrip_slash remote_dir)
                    local_files remote_files include exclude)
                 (visit (remdups (map fst local_files @ map fst remote_files))))))"

section \<open>A reference transport and local file system\<close>

text \<open>
  Modelled from the spec: the Transport Adapter contract of section 6 and the local file
  operations the engine calls, none of which is implemented in the repository.  A world
  holds the files of each side (path to content) and the directories of each side;
  \<open>faults\<close> lets a chosen call fail with a chosen exception.  \<open>Rename\<close> fails if the
  destination exists, \<open>Mkdir\<close> fails if the path exists or its parent is missing,
  \<open>Chdir\<close> is an existence probe, \<open>Replace\<close> overwrites.  A failing call leaves
  the world as it was.
\<close>

record fs =
  lfiles :: "path \<rightharpoonup> string"
  ldirs :: "path set"
  rfiles :: "path \<rightharpoonup> string"
  rdirs :: "path set"
  faults :: "op \<rightharpoonup> exn"

fun fs_step :: "op \<Rightarrow> fs \<Rightarrow> (exn + unit) \<times> fs" where
  "fs_step (Put l r) w =
     (case lfiles w l of
        None \<Rightarrow> (Inl (FileNotFoundError l), w)
      | Some c \<Rightarrow> (Inr (), w\<lparr>rfiles := (rfiles w)(r \<mapsto> c)\<rparr>))"
| "fs_step (Get r l) w =
     (case rfiles w r of
        None \<Rightarrow> (Inl (FileNotFoundError r), w)
      | Some c \<Rightarrow> (Inr (), w\<lparr>lfiles := (lfiles w)(l \<mapsto> c)\<rparr>))"
| "fs_step (Rename a b) w =
     (case rfiles w a of
        None \<Rightarrow> (Inl (FileNotFoundError a), w)
      | Some c \<Rightarrow>
          (if rfiles w b \<noteq> None then (Inl (IOError ''Failure''), w)
           else (Inr (), w\<lparr>rfiles := (rfiles w)(a := None, b \<mapsto> c)\<rparr>)))"
| "fs_step (Remove p) w =
     (if rfiles w p = None then (Inl (FileNotFoundError p), w)
      else (Inr (), w\<lparr>rfiles := (rfiles w)(p := None)\<rparr>))"
| "fs_step (Mkdir p) w =
     (if p \<in> rdirs w \<or> rfiles w p \<noteq> None then (Inl (IOError ''Failure''), w)
      else if dirname p \<noteq> [] \<and> dirname p \<notin> rdirs w then (Inl (FileNotFoundError p), w)
      else (Inr (), w\<lparr>rdirs := insert p (rdirs w)\<rparr>))"
| "fs_step (Chdir p) w =
     (if p \<in> rdirs w then (Inr (), w) else (Inl (FileNotFoundError p), w))"
| "fs_step (Makedirs p) w =
     (if lfiles w p \<noteq> None then (Inl (IOError ''File exists''), w)
      else (Inr (), w\<lparr>ldirs := insert p (ldirs w)\<rparr>))"
| "fs_step (Replace a b) w =
     (case lfiles w a of
        None \<Rightarrow> (Inl (FileNotFoundError a), w)
      | Some c \<Rightarrow>
          (if b \<in> ldirs w then (Inl (IOError ''Is a directory''), w)
           else (Inr (), w\<lparr>lfiles := (lfiles w)(a := None, b \<mapsto> c)\<rparr>)))"
| "fs_step (OsRemove p) w =
     (if lfiles w p = None then (Inl (FileNotFoundError p), w)
      else (Inr (), w\<lparr>lfiles := (lfiles w)(p := None)\<rparr>))"

definition fs_exec :: "op \<Rightarrow> fs \<Rightarrow> (exn + unit) \<times> fs" where
  "fs_exec c w = (case faults w c of Some e \<Rightarrow> (Inl e, w) | None \<Rightarrow> fs_step c w)"

text \<open>
  The reference environment has the current directory \<open>/home/u\<close> and sees nothing when
  it scans; runs of the sync entry points replace the two scan fields.  Its subtraction
  is the exact one, which is what floating-point subtraction computes on the whole-second
  time stamps of the worlds below.
\<close>

definition fs_env :: "fs env" where
  "fs_env =
     \<lparr>exec = fs_exec, os_path_isdir = (\<lambda>p w. p \<in> ldirs w), os_getcwd = (\<lambda>w. ''/home/u''),
      os_walk = (\<lambda>p w. None), listdir_tree = (\<lambda>p w. Inr []),
      float_sub = (\<lambda>a b. a - b)\<rparr>"

text \<open>Two worlds that differ at most in the remote directories.\<close>

definition same_files :: "fs \<Rightarrow> fs \<Rightarrow> bool" where
  "same_files w w' =
     (lfiles w' = lfiles w \<and> rfiles w' = rfiles w \<and> ldirs w' = ldirs w \<and> faults w' = faults w)"

text \<open>The events of directory probing and creation on the remote side.\<close>

fun dir_event :: "event \<Rightarrow> bool" where
  "dir_event (Call (Chdir p) x) = True"
| "dir_event (Call (Mkdir p) x) = True"
| "dir_event ev = False"

text \<open>Worlds used to run the code on concrete inputs.\<close>

definition fs_empty :: fs where
  "fs_empty =
     \<lparr>lfiles = Map.empty, ldirs = {}, rfiles = Map.empty, rdirs = {}, faults = Map.empty\<rparr>"

definition fs_get_broken :: fs where
  "fs_get_broken =
     fs_empty\<lparr>faults := [Get ''/srv/a.txt'' ''/home/u/a.txt.tmp'' \<mapsto> IOError ''Failure'']\<rparr>"

text \<open>
  A local file \<open>/home/u/a.txt\<close> and an existing remote directory \<open>/srv\<close>; in
  \<open>fs_upload_broken\<close> every rename onto \<open>/srv/a.txt\<close> and the direct put to it fail.
\<close>

definition fs_local_a :: fs where
  "fs_local_a = fs_empty\<lparr>lfiles := [''/home/u/a.txt'' \<mapsto> ''hi''], rdirs := {''/srv''}\<rparr>"

definition fs_upload_broken :: fs where
  "fs_upload_broken =
     fs_local_a\<lparr>faults := [Rename ''/srv/a.txt.tmp'' ''/srv/a.txt'' \<mapsto> IOError ''Failure'',
                           Put ''/home/u/a.txt'' ''/srv/a.txt'' \<mapsto> IOError ''No space'']\<rparr>"

text \<open>
  Scans for the runs of the sync entry points: the local directory \<open>/home/u\<close> holds the
  one file \<open>a.txt\<close>.
\<close>

definition meta_a :: meta where
  "meta_a = (33188, 2, 100)"

definition env_local_a :: "fs env" where
  "env_local_a =
     fs_env\<lparr>os_walk := (\<lambda>p w. if p = ''/home/u''
                              then Some [LFile ''a.txt'' (Inr meta_a)] else None)\<rparr>"

text \<open>The remote directory \<open>/srv\<close> holds the two files \<open>a.txt\<close> and \<open>b.txt\<close>.\<close>

definition env_remote_ab :: "fs env" where
  "env_remote_ab =
     fs_env\<lparr>listdir_tree := (\<lambda>p w. if p = ''/srv''
                                   then Inr [RFile ''a.txt'' meta_a, RFile ''b.txt'' meta_a]
                                   else Inr [])\<rparr>"

text \<open>
  A local directory with an entry that the walk cannot enumerate, and a remote directory
  with a subdirectory whose listing is denied.
\<close>

definition env_local_skipped :: "fs env" where
  "env_local_skipped =
     fs_env\<lparr>os_walk := (\<lambda>p w. if p = ''/home/u''
                              then Some [LSkipped ''private'', LFile ''a.txt'' (Inr meta_a)]
                              else None)\<rparr>"

definition env_remote_denied :: "fs env" where
  "env_remote_denied =
     fs_env\<lparr>listdir_tree := (\<lambda>p w. if p = ''/srv''
                                   then Inr [RFile ''a.txt'' meta_a,
                                             RDenied ''private''
                                               (PermissionError ''Permission denied'')]
                                   else Inr [])\<rparr>"

text \<open>
  The remote directory \<open>/srv\<close> holds the one file \<open>notes/plan.txt\<close>; nothing is local.
\<close>

definition env_remote_notes :: "fs env" where
  "env_remote_notes =
     fs_env\<lparr>listdir_tree := (\<lambda>p w. if p = ''/srv''
                                   then Inr [RDir ''notes'' [RFile ''plan.txt'' meta_a]]
                                   else Inr [])\<rparr>"

definition fs_remote_notes :: fs where
  "fs_remote_notes = fs_empty\<lparr>rfiles := [''/srv/notes/plan.txt'' \<mapsto> ''hi'']\<rparr>"

text \<open>The events of downloading that file into \<open>/home/u\<close>.\<close>

definition notes_events :: "event list" where
  "notes_events =
     [Call (Makedirs ''/home/u/notes'') (Inr ()),
      Call (Makedirs ''/home/u/notes'') (Inr ()),
      Call (Get ''/srv/notes/plan.txt'' ''/home/u/notes/plan.txt.tmp'') (Inr ()),
      Call (Replace ''/home/u/notes/plan.txt.tmp'' ''/home/u/notes/plan.txt'') (Inr ()),
      Print (downloaded_line ''/srv/notes/plan.txt'' ''/home/u/notes/plan.txt'')]"

text \<open>
  Both sides hold \<open>a.txt\<close> and \<open>b.txt\<close>, all four with the same modification time; in
  \<open>fs_conflict_broken\<close> the transport fails to fetch \<open>a.txt\<close> into the temporary file of
  its \<open>.remote\<close> copy.
\<close>

definition env_both_ab :: "fs env" where
  "env_both_ab =
     fs_env\<lparr>os_walk := (\<lambda>p w. if p = ''/home/u''
                              then Some [LFile ''a.txt'' (Inr meta_a),
                                         LFile ''b.txt'' (Inr meta_a)]
                              else None),
            listdir_tree := (\<lambda>p w. if p = ''/srv''
                                   then Inr [RFile ''a.txt'' meta_a, RFile ''b.txt'' meta_a]
                                   else Inr [])\<rparr>"

definition fs_conflict_broken :: fs where
  "fs_conflict_broken =
     fs_empty\<lparr>faults := [Get ''/srv/a.txt'' ''/home/u/a.txt.remote.tmp''
                            \<mapsto> IOError ''Failure'']\<rparr>"

text \<open>
  Both sides hold \<open>a.txt\<close> and \<open>b.txt\<close> with different contents, and nothing fails.
\<close>

definition fs_both_ab :: fs where
  "fs_both_ab =
     fs_empty\<lparr>lfiles := [''/home/u/a.txt'' \<mapsto> ''la'', ''/home/u/b.txt'' \<mapsto> ''lb''],
              rfiles := [''/srv/a.txt'' \<mapsto> ''ra'', ''/srv/b.txt'' \<mapsto> ''rb'']\<rparr>"


definition broken_conflict_events :: "event list" where
  "broken_conflict_events =
     [Call (Makedirs ''/home/u'') (Inr ()),
      Call (Get ''/srv/a.txt'' ''/home/u/a.txt.remote.tmp'') (Inl (IOError ''Failure'')),
      Print (download_error_line ''/srv/a.txt'' ''/home/u/a.txt.remote'' (IOError ''Failure'')),
      Call (OsRemove ''/home/u/a.txt.remote.tmp'')
        (Inl (FileNotFoundError ''/home/u/a.txt.remote.tmp''))]"

section \<open>Evaluation of the model on concrete inputs\<close>

lemmas py_defs = call_def print_def py_seq_def py_bind_def py_try_def py_return_def
     py_raise_def swallow_def swallow_IOError_def

lemma exec_fs_env: "exec fs_env = fs_exec"
  by (simp add: fs_env_def)

lemma isdir_fs_env: "os_path_isdir fs_env p w = (p \<in> ldirs w)"
  by (simp add: fs_env_def)

lemma fs_empty_fields:
  "lfiles fs_empty = Map.empty" "ldirs fs_empty = {}" "rfiles fs_empty = Map.empty"
  "rdirs fs_empty = {}" "faults fs_empty = Map.empty"
  by (simp_all add: fs_empty_def)

lemma fs_get_broken_fields:
  "lfiles fs_get_broken = Map.empty" "ldirs fs_get_broken = {}"
  "rfiles fs_get_broken = Map.empty" "rdirs fs_get_broken = {}"
  "faults fs_get_broken = [Get ''/srv/a.txt'' ''/home/u/a.txt.tmp'' \<mapsto> IOError ''Failure'']"
  by (simp_all add: fs_empty_def fs_get_broken_def)

lemma basename_a_txt: "basename ''/home/u/a.txt'' = ''a.txt''"
  by (simp add: basename_def)

lemma dirname_home_u_a: "dirname ''/home/u/a.txt'' = ''/home/u''"
  by (simp add: dirname_def rstrip_slash_def)

lemma target_home_u_a:
  "ldirs w = {} \<Longrightarrow> download_target fs_env rp ''/home/u/a.txt'' w = ''/home/u/a.txt''"
  by (simp add: download_target_def isdir_fs_env endswith_slash_def basename_a_txt)

lemma download_missing_run:
  "atomic_download fs_env ''/srv/a.txt'' ''/home/u/a.txt'' fs_empty =
     (Inr (), fs_empty\<lparr>ldirs := {''/home/u''}\<rparr>,
      [Call (Makedirs ''/home/u'') (Inr ()),
       Call (Get ''/srv/a.txt'' ''/home/u/a.txt.tmp'') (Inl (FileNotFoundError ''/srv/a.txt'')),
       Print (remote_not_found_line ''/srv/a.txt'')])"
  by (simp add: atomic_download_def target_home_u_a download_body_def dirname_home_u_a
      download_handler_def py_defs Let_def exec_fs_env fs_exec_def fs_empty_fields)

lemma download_broken_run:
  "atomic_download fs_env ''/srv/a.txt'' ''/home/u/a.txt'' fs_get_broken =
     (Inl (RuntimeError (download_failed_message ''/srv/a.txt'' ''/home/u/a.txt'' (IOError ''Failure''))),
      fs_get_broken\<lparr>ldirs := {''/home/u''}\<rparr>,
      [Call (Makedirs ''/home/u'') (Inr ()),
       Call (Get ''/srv/a.txt'' ''/home/u/a.txt.tmp'') (Inl (IOError ''Failure'')),
       Print (download_error_line ''/srv/a.txt'' ''/home/u/a.txt'' (IOError ''Failure'')),
       Call (OsRemove ''/home/u/a.txt.tmp'') (Inl (FileNotFoundError ''/home/u/a.txt.tmp''))])"
  by (simp add: atomic_download_def target_home_u_a download_body_def dirname_home_u_a
      download_handler_def py_defs Let_def exec_fs_env fs_exec_def fs_get_broken_fields)


lemma fs_upload_broken_fields:
  "lfiles fs_upload_broken = [''/home/u/a.txt'' \<mapsto> ''hi'']" "ldirs fs_upload_broken = {}"
  "rfiles fs_upload_broken = Map.empty" "rdirs fs_upload_broken = {''/srv''}"
  "faults fs_upload_broken =
     [Rename ''/srv/a.txt.tmp'' ''/srv/a.txt'' \<mapsto> IOError ''Failure'',
      Put ''/home/u/a.txt'' ''/srv/a.txt'' \<mapsto> IOError ''No space'']"
  by (simp_all add: fs_empty_def fs_local_a_def fs_upload_broken_def)

lemma basename_srv_a: "basename ''/srv/a.txt'' = ''a.txt''"
  by (simp add: basename_def)

lemma dirname_srv_a: "dirname ''/srv/a.txt'' = ''/srv''"
  by (simp add: dirname_def rstrip_slash_def)

lemma upload_target_srv_a: "upload_target lp ''/srv/a.txt'' = ''/srv/a.txt''"
  by (simp add: upload_target_def endswith_slash_def basename_srv_a)

lemma upload_broken_run:
  "fst (atomic_upload fs_env ''/home/u/a.txt'' ''/srv/a.txt'' fs_upload_broken) = Inr ()"
  "snd (snd (atomic_upload fs_env ''/home/u/a.txt'' ''/srv/a.txt'' fs_upload_broken)) =
     [Call (Chdir ''/srv'') (Inr ()),
      Call (Put ''/home/u/a.txt'' ''/srv/a.txt.tmp'') (Inr ()),
      Call (Rename ''/srv/a.txt.tmp'' ''/srv/a.txt'') (Inl (IOError ''Failure'')),
      Call (Remove ''/srv/a.txt'') (Inl (FileNotFoundError ''/srv/a.txt'')),
      Call (Rename ''/srv/a.txt.tmp'' ''/srv/a.txt'') (Inl (IOError ''Failure'')),
      Call (Remove ''/srv/a.txt.tmp'') (Inr ()),
      Call (Put ''/home/u/a.txt'' ''/srv/a.txt'') (Inl (IOError ''No space'')),
      Call (Remove ''/srv/a.txt.tmp'') (Inl (FileNotFoundError ''/srv/a.txt.tmp'')),
      Call (Remove ''/srv/a.txt.tmp'') (Inl (FileNotFoundError ''/srv/a.txt.tmp'')),
      Print (upload_error_line ''/home/u/a.txt'' ''/srv/a.txt''
               (RuntimeError (aggregated_message (IOError ''Failure'') (IOError ''No space''))))]"
  by (simp_all add: atomic_upload_def upload_target_srv_a upload_body_def upload_handler_def
      ensure_remote_dir_def dirname_srv_a move_tmp_def py_defs Let_def exec_fs_env fs_exec_def
      fs_upload_broken_fields)

lemma relpath_home_u: "relpath ''/home/u'' ''/home/u'' ''/home/u'' = Inr ''.''"
  by code_simp

lemma normpath_dot_a: "normpath (join ''.'' ''a.txt'') = ''a.txt''"
  by code_simp

lemma startswith_a: "\<not> startswith ''a.txt'' ''..''"
  by code_simp

lemma env_local_a_fields:
  "exec env_local_a = fs_exec" "os_getcwd env_local_a w = ''/home/u''"
  "os_walk env_local_a ''/home/u'' w = Some [LFile ''a.txt'' (Inr meta_a)]"
  "os_path_isdir env_local_a p w = (p \<in> ldirs w)"
  by (simp_all add: env_local_a_def fs_env_def)

lemma list_local_a: "list_local env_local_a ''/home/u'' w = Inr [(''a.txt'', meta_a)]"
  by (simp add: list_local_def env_local_a_fields relpath_home_u normpath_dot_a startswith_a)

lemma basename_plain_a: "basename ''a.txt'' = ''a.txt''"
  by code_simp

lemma fnmatch_star_a: "fnmatch ''a.txt'' ''*''"
  by code_simp

lemma fnmatch_md_a: "\<not> fnmatch ''a.txt'' ''*.md''"
  by code_simp

lemma join_srv_a: "join ''/srv'' ''a.txt'' = ''/srv/a.txt''"
  by code_simp

lemma join_home_a: "join ''/home/u'' ''a.txt'' = ''/home/u/a.txt''"
  by code_simp

lemma fs_local_a_fields:
  "lfiles fs_local_a = [''/home/u/a.txt'' \<mapsto> ''hi'']" "ldirs fs_local_a = {}"
  "rfiles fs_local_a = Map.empty" "rdirs fs_local_a = {''/srv''}"
  "faults fs_local_a = Map.empty"
  by (simp_all add: fs_empty_def fs_local_a_def)

lemma upload_a_run:
  assumes "exec E = fs_exec"
  shows "fst (atomic_upload E ''/home/u/a.txt'' ''/srv/a.txt'' fs_local_a) = Inr ()"
    and "snd (snd (atomic_upload E ''/home/u/a.txt'' ''/srv/a.txt'' fs_local_a)) =
     [Call (Chdir ''/srv'') (Inr ()),
      Call (Put ''/home/u/a.txt'' ''/srv/a.txt.tmp'') (Inr ()),
      Call (Rename ''/srv/a.txt.tmp'' ''/srv/a.txt'') (Inr ()),
      Print (uploaded_line ''/home/u/a.txt'' ''/srv/a.txt'')]"
  using assms
  by (simp_all add: atomic_upload_def upload_target_srv_a upload_body_def upload_handler_def
      ensure_remote_dir_def dirname_srv_a move_tmp_def py_defs Let_def fs_exec_def
      fs_local_a_fields)

lemma push_mkdirs_a_run:
  assumes "exec E = fs_exec"
  shows "push_mkdirs E ''/srv/a.txt'' fs_local_a
           = (Inr (), fs_local_a, [Call (Chdir ''/srv'') (Inr ())])"
  using assms
  by (simp add: push_mkdirs_def dirname_srv_a py_defs fs_exec_def fs_local_a_fields)

lemma env_remote_ab_fields:
  "exec env_remote_ab = fs_exec" "os_getcwd env_remote_ab w = ''/home/u''"
  "listdir_tree env_remote_ab ''/srv'' w = Inr [RFile ''a.txt'' meta_a, RFile ''b.txt'' meta_a]"
  "os_path_isdir env_remote_ab p w = (p \<in> ldirs w)"
  by (simp_all add: env_remote_ab_def fs_env_def)

lemma join_srv_b: "join ''/srv'' ''b.txt'' = ''/srv/b.txt''"
  by code_simp

lemma list_remote_ab:
  "list_remote env_remote_ab ''/srv'' w = Inr [(''/srv/a.txt'', meta_a), (''/srv/b.txt'', meta_a)]"
  by (simp add: list_remote_def env_remote_ab_fields join_srv_a join_srv_b)

lemma relpath_srv_a: "relpath ''/home/u'' ''/srv/a.txt'' ''/srv'' = Inr ''a.txt''"
  by code_simp

lemma rstrip_srv: "rstrip_slash ''/srv'' = ''/srv''"
  by code_simp







section \<open>Failure handling of \<^verbatim>\<open>atomic_download\<close>\<close>

lemma download_handler_expected:
  "is_expected e \<Longrightarrow> \<exists>line. download_handler E rp lp e w = (Inr (), w, [Print line])"
  by (cases e) (simp_all add: download_handler_def print_def)

lemma download_handler_other:
  "\<not> is_expected e \<Longrightarrow>
   \<exists>x w'. download_handler E rp lp e w =
     (Inl (RuntimeError (download_failed_message rp lp e)), w',
      [Print (download_error_line rp lp e), Call (OsRemove (lp @ ''.tmp'')) x])"
  by (cases e) (simp_all add: download_handler_def py_defs split: prod.splits sum.splits)

lemma download_body_cases:
  assumes "download_body E rp lp w = (r, w', evs)"
  shows "\<exists>pre. (pre = [] \<or> pre = [Call (Makedirs (dirname lp)) (Inr ())]) \<and>
     ((\<exists>e. r = Inl e \<and> evs = [Call (Makedirs (dirname lp)) (Inl e)])
    \<or> (\<exists>e. r = Inl e \<and> evs = pre @ [Call (Get rp (lp @ ''.tmp'')) (Inl e)])
    \<or> (\<exists>e. r = Inl e \<and> evs = pre @ [Call (Get rp (lp @ ''.tmp'')) (Inr ()),
                                      Call (Replace (lp @ ''.tmp'') lp) (Inl e)])
    \<or> (r = Inr () \<and> evs = pre @ [Call (Get rp (lp @ ''.tmp'')) (Inr ()),
                                      Call (Replace (lp @ ''.tmp'') lp) (Inr ()),
                                      Print (downloaded_line rp lp)]))"
  using assms
  by (auto simp: download_body_def py_defs Let_def split: prod.splits sum.splits if_splits)


lemma download_body_failure:
  assumes "download_body E rp lp w = (Inl e', w', evs)"
  shows "\<exists>pre c0. evs = pre @ [Call c0 (Inl e')] \<and> (\<forall>c x. Call c (Inl x) \<notin> set pre)
           \<and> (\<forall>p x. Call (OsRemove p) x \<notin> set evs)"
  using download_body_cases [OF assms] by auto

lemma download_body_success:
  assumes "download_body E rp lp w = (Inr u, w', evs)"
  shows "\<forall>c x. Call c (Inl x) \<notin> set evs"
  using download_body_cases [OF assms] by auto

lemma atomic_download_unfold:
  assumes run: "atomic_download E rp lp w = (r, w', evs)"
    and body: "download_body E rp (download_target E rp lp w) w = (rb, wb, eb)"
  shows "(\<exists>u. rb = Inr u \<and> r = Inr () \<and> evs = eb)
       \<or> (\<exists>e line. rb = Inl e \<and> is_expected e \<and> r = Inr () \<and> evs = eb @ [Print line])
       \<or> (\<exists>e x. rb = Inl e \<and> \<not> is_expected e
             \<and> r = Inl (RuntimeError (download_failed_message rp (download_target E rp lp w) e))
             \<and> evs = eb @ [Print (download_error_line rp (download_target E rp lp w) e),
                            Call (OsRemove (download_target E rp lp w @ ''.tmp'')) x])"
proof (cases rb)
  case (Inr u)
  with run body show ?thesis
    by (simp add: atomic_download_def py_try_def Let_def)
next
  case (Inl e)
  let ?t = "download_target E rp lp w"
  obtain rh wh eh where h: "download_handler E rp ?t e wb = (rh, wh, eh)"
    by (metis prod_cases3)
  have evs: "evs = eb @ eh" and r: "r = rh"
    using run body h Inl by (simp_all add: atomic_download_def py_try_def Let_def)
  show ?thesis
  proof (cases "is_expected e")
    case True
    with download_handler_expected [of e E rp ?t wb] h Inl evs r show ?thesis
      by auto
  next
    case False
    with download_handler_other [of e E rp ?t wb] h Inl evs r show ?thesis
      by auto
  qed
qed

lemma atomic_download_calls:
  assumes run: "atomic_download E rp lp w = (r, w', evs)"
    and mem: "Call c x \<in> set evs"
  shows "c = Makedirs (dirname (download_target E rp lp w))
       \<or> c = Get rp (download_target E rp lp w @ ''.tmp'')
       \<or> c = Replace (download_target E rp lp w @ ''.tmp'') (download_target E rp lp w)
       \<or> c = OsRemove (download_target E rp lp w @ ''.tmp'')"
proof -
  let ?t = "download_target E rp lp w"
  obtain rb wb eb where body: "download_body E rp ?t w = (rb, wb, eb)"
    by (metis prod_cases3)
  have eb: "\<And>c x. Call c x \<in> set eb \<Longrightarrow>
       c = Makedirs (dirname ?t) \<or> c = Get rp (?t @ ''.tmp'') \<or> c = Replace (?t @ ''.tmp'') ?t"
    using download_body_cases [OF body] by auto
  from atomic_download_unfold [OF run body] mem
  have "Call c x \<in> set eb \<or> c = OsRemove (?t @ ''.tmp'')"
    by auto
  with eb show ?thesis
    by blast
qed

lemma atomic_download_result:
  assumes run: "atomic_download E rp lp w = (r, w', evs)"
  shows "r = Inr () \<or> (\<exists>m. r = Inl (RuntimeError m))"
proof -
  obtain rb wb eb where body: "download_body E rp (download_target E rp lp w) w = (rb, wb, eb)"
    by (metis prod_cases3)
  from atomic_download_unfold [OF run body] show ?thesis
    by auto
qed

text \<open>
  Claim C3, as amended.  Take any run of \<^verbatim>\<open>atomic_download\<close> in which a call other
  than the final removal of the temporary file raised \<open>e\<close> (the download failed with
  \<open>e\<close>).  If \<open>e\<close> is neither \<open>FileNotFoundError\<close> nor \<open>PermissionError\<close>, the function
  removes the temporary file (its last call is \<^verbatim>\<open>os.remove(tmp)\<close>) and raises
  \<open>RuntimeError\<close> to its caller.  If \<open>e\<close> is one of these two, the function prints a
  line and returns normally; it neither raises nor removes the temporary file.
\<close>

theorem atomic_download_failure:
  assumes run: "atomic_download E remote_path local_path w = (r, w', evs)"
    and failed: "Call c (Inl e) \<in> set evs"
    and not_cleanup: "c \<noteq> OsRemove (download_target E remote_path local_path w @ ''.tmp'')"
  shows "if is_expected e
         then r = Inr ()
              \<and> (\<forall>x. Call (OsRemove (download_target E remote_path local_path w @ ''.tmp'')) x
                      \<notin> set evs)
              \<and> (\<exists>line. last evs = Print line)
         else r = Inl (RuntimeError (download_failed_message remote_path
                         (download_target E remote_path local_path w) e))
              \<and> (\<exists>x. last evs
                      = Call (OsRemove (download_target E remote_path local_path w @ ''.tmp'')) x)"
proof -
  let ?t = "download_target E remote_path local_path w"
  obtain rb wb eb where body: "download_body E remote_path ?t w = (rb, wb, eb)"
    by (metis prod_cases3)
  show ?thesis
  proof (cases rb)
    case (Inr u)
    then have "evs = eb"
      using run body by (simp add: atomic_download_def py_try_def Let_def)
    with body Inr have "download_body E remote_path ?t w = (Inr u, wb, evs)"
      by simp
    from download_body_success [OF this] failed have False
      by blast
    then show ?thesis ..
  next
    case (Inl e')
    obtain rh wh eh where h: "download_handler E remote_path ?t e' wb = (rh, wh, eh)"
      by (metis prod_cases3)
    have evs: "evs = eb @ eh" and r: "r = rh"
      using run body h Inl by (simp_all add: atomic_download_def py_try_def Let_def)
    have body': "download_body E remote_path ?t w = (Inl e', wb, eb)"
      using body Inl by simp
    from download_body_failure [OF body'] obtain pre c0
      where eb: "eb = pre @ [Call c0 (Inl e')]"
        and pre: "\<forall>c x. Call c (Inl x) \<notin> set pre"
        and norm: "\<forall>p x. Call (OsRemove p) x \<notin> set eb"
      by blast
    show ?thesis
    proof (cases "is_expected e'")
      case True
      with download_handler_expected [of e' E remote_path ?t wb] h
      obtain line where eh: "eh = [Print line]" and rh: "rh = Inr ()"
        by auto
      have "e = e'"
        using failed evs eb eh pre by auto
      then show ?thesis
        using True r rh evs eh norm by simp
    next
      case False
      with download_handler_other [of e' E remote_path ?t wb] h
      obtain x where eh: "eh = [Print (download_error_line remote_path ?t e'),
                                Call (OsRemove (?t @ ''.tmp'')) x]"
        and rh: "rh = Inl (RuntimeError (download_failed_message remote_path ?t e'))"
        by auto
      have "e = e'"
        using failed evs eb eh pre not_cleanup by auto
      then show ?thesis
        using False r rh evs eh by simp
    qed
  qed
qed


theorem atomic_download_failure_witness:
  "atomic_download fs_env ''/srv/a.txt'' ''/home/u/a.txt'' fs_get_broken =
     (Inl (RuntimeError (download_failed_message ''/srv/a.txt'' ''/home/u/a.txt''
             (IOError ''Failure''))),
      fs_get_broken\<lparr>ldirs := {''/home/u''}\<rparr>,
      [Call (Makedirs ''/home/u'') (Inr ()),
       Call (Get ''/srv/a.txt'' ''/home/u/a.txt.tmp'') (Inl (IOError ''Failure'')),
       Print (download_error_line ''/srv/a.txt'' ''/home/u/a.txt'' (IOError ''Failure'')),
       Call (OsRemove ''/home/u/a.txt.tmp'') (Inl (FileNotFoundError ''/home/u/a.txt.tmp''))])
   \<and> last [Call (Makedirs ''/home/u'') (Inr ()),
            Call (Get ''/srv/a.txt'' ''/home/u/a.txt.tmp'') (Inl (IOError ''Failure'')),
            Print (download_error_line ''/srv/a.txt'' ''/home/u/a.txt'' (IOError ''Failure'')),
            Call (OsRemove ''/home/u/a.txt.tmp'')
              (Inl (FileNotFoundError ''/home/u/a.txt.tmp''))]
       = Call (OsRemove ''/home/u/a.txt.tmp'') (Inl (FileNotFoundError ''/home/u/a.txt.tmp''))"
proof -
  let ?c = "Get ''/srv/a.txt'' ''/home/u/a.txt.tmp''"
  let ?evs = "[Call (Makedirs ''/home/u'') (Inr ()),
       Call ?c (Inl (IOError ''Failure'')),
       Print (download_error_line ''/srv/a.txt'' ''/home/u/a.txt'' (IOError ''Failure'')),
       Call (OsRemove ''/home/u/a.txt.tmp'') (Inl (FileNotFoundError ''/home/u/a.txt.tmp''))]"
  have failed: "Call ?c (Inl (IOError ''Failure'')) \<in> set ?evs"
    by simp
  have not_cleanup:
    "?c \<noteq> OsRemove (download_target fs_env ''/srv/a.txt'' ''/home/u/a.txt'' fs_get_broken
                     @ ''.tmp'')"
    by simp
  from atomic_download_failure [OF download_broken_run failed not_cleanup]
  show ?thesis
    using download_broken_run by (simp add: target_home_u_a fs_get_broken_fields)
qed

text \<open>
  Claim C3 as stated fails: when the remote source is missing, \<^verbatim>\<open>sftp.get\<close> raises
  \<open>FileNotFoundError\<close>, and \<^verbatim>\<open>atomic_download\<close> prints a line and returns normally.
  It raises nothing and makes no call that removes the temporary file.
\<close>

theorem atomic_download_missing_source_counterexample:
  "atomic_download fs_env ''/srv/a.txt'' ''/home/u/a.txt'' fs_empty =
     (Inr (), fs_empty\<lparr>ldirs := {''/home/u''}\<rparr>,
      [Call (Makedirs ''/home/u'') (Inr ()),
       Call (Get ''/srv/a.txt'' ''/home/u/a.txt.tmp'') (Inl (FileNotFoundError ''/srv/a.txt'')),
       Print (remote_not_found_line ''/srv/a.txt'')])"
  by (rule download_missing_run)


section \<open>Every run of \<^verbatim>\<open>atomic_upload\<close>\<close>

lemma swallow_IOError_call:
  "swallow_IOError (call E c) w = (r, w', evs) \<Longrightarrow> \<exists>x. evs = [Call c x]"
  by (auto simp: py_defs split: prod.splits sum.splits if_splits)

lemma mkdir_parts_events:
  "mkdir_parts E cur ps w = (r, w', evs) \<Longrightarrow> list_all dir_event evs"
proof (induction ps arbitrary: cur w r w' evs)
  case Nil
  then show ?case by (auto simp: py_return_def)
next
  case (Cons part rest)
  let ?cur = "if cur \<noteq> [] then join cur part else part"
  obtain r1 w1 e1 where step: "swallow_IOError (call E (Mkdir ?cur)) w = (r1, w1, e1)"
    by (metis prod_cases3)
  from swallow_IOError_call [OF step] obtain x where e1: "e1 = [Call (Mkdir ?cur) x]"
    by blast
  show ?case
  proof (cases r1)
    case (Inl e)
    with Cons.prems step e1 show ?thesis
      by (auto simp: py_seq_def py_bind_def Let_def)
  next
    case (Inr u)
    obtain r2 w2 e2 where rest: "mkdir_parts E ?cur rest w1 = (r2, w2, e2)"
      by (metis prod_cases3)
    from Cons.IH [OF rest] have "list_all dir_event e2" .
    with Cons.prems step e1 Inr rest show ?thesis
      by (auto simp: py_seq_def py_bind_def Let_def)
  qed
qed

lemma ensure_remote_dir_events:
  assumes "ensure_remote_dir E rp w = (r, w', evs)"
  shows "list_all dir_event evs"
proof (cases "dirname rp \<noteq> [] \<and> dirname rp \<noteq> ''.''")
  case False
  with assms show ?thesis
    by (auto simp: ensure_remote_dir_def Let_def py_return_def)
next
  case True
  obtain r1 w1 where c: "exec E (Chdir (dirname rp)) w = (r1, w1)"
    by (metis prod.exhaust)
  show ?thesis
  proof (cases r1)
    case (Inr u)
    with assms True c show ?thesis
      by (auto simp: ensure_remote_dir_def Let_def py_try_def call_def)
  next
    case (Inl e)
    show ?thesis
    proof (cases "is_IOError e")
      case False
      with assms True c Inl show ?thesis
        by (auto simp: ensure_remote_dir_def Let_def py_try_def call_def py_raise_def)
    next
      case io: True
      obtain r2 w2 e2 where m: "mkdir_parts E [] (parts (dirname rp)) w1 = (r2, w2, e2)"
        by (metis prod_cases3)
      from mkdir_parts_events [OF m] have "list_all dir_event e2" .
      with assms True c Inl io m show ?thesis
        by (auto simp: ensure_remote_dir_def Let_def py_try_def call_def)
    qed
  qed
qed

lemma move_tmp_cases:
  assumes run: "move_tmp E lp t tmp w = (r, w', evs)"
  shows "(r = Inr True \<and> evs = [Call (Rename tmp t) (Inr ())])
    \<or> (\<exists>e1 x. r = Inr True
          \<and> evs = [Call (Rename tmp t) (Inl e1), Call (Remove t) x,
                   Call (Rename tmp t) (Inr ())])
    \<or> (\<exists>e1 x e2 y. r = Inr False
          \<and> evs = [Call (Rename tmp t) (Inl e1), Call (Remove t) x,
                   Call (Rename tmp t) (Inl e2), Call (Remove tmp) y,
                   Call (Put lp t) (Inr ())])
    \<or> (\<exists>e1 x e2 y e3 z. r = Inl (RuntimeError (aggregated_message e1 e3))
          \<and> evs = [Call (Rename tmp t) (Inl e1), Call (Remove t) x,
                   Call (Rename tmp t) (Inl e2), Call (Remove tmp) y,
                   Call (Put lp t) (Inl e3), Call (Remove tmp) z])"
proof -
  obtain r1 w1 where c1: "exec E (Rename tmp t) w = (r1, w1)"
    by (metis prod.exhaust)
  show ?thesis
  proof (cases r1)
    case (Inr u)
    with run c1 show ?thesis
      by (auto simp: move_tmp_def py_defs)
  next
    case e1: (Inl e1)
    obtain x w2 where c2: "exec E (Remove t) w1 = (x, w2)"
      by (metis prod.exhaust)
    obtain r3 w3 where c3: "exec E (Rename tmp t) w2 = (r3, w3)"
      by (metis prod.exhaust)
    show ?thesis
    proof (cases r3)
      case (Inr u)
      with run c1 e1 c2 c3 show ?thesis
        by (cases x) (auto simp: move_tmp_def py_defs)
    next
      case e2: (Inl e2)
      obtain y w4 where c4: "exec E (Remove tmp) w3 = (y, w4)"
        by (metis prod.exhaust)
      obtain r5 w5 where c5: "exec E (Put lp t) w4 = (r5, w5)"
        by (metis prod.exhaust)
      show ?thesis
      proof (cases r5)
        case (Inr u)
        with run c1 e1 c2 c3 e2 c4 c5 show ?thesis
          by (cases x; cases y) (auto simp: move_tmp_def py_defs)
      next
        case e3: (Inl e3)
        obtain z w6 where c6: "exec E (Remove tmp) w5 = (z, w6)"
          by (metis prod.exhaust)
        from run c1 e1 c2 c3 e2 c4 c5 e3 c6 show ?thesis
          by (cases x; cases y; cases z) (auto simp: move_tmp_def py_defs)
      qed
    qed
  qed
qed

lemma upload_handler_cases:
  assumes "upload_handler E lp t e w = (r, w', evs)"
  shows "r = Inr () \<and>
     (if is_expected e then \<exists>line. evs = [Print line]
      else \<exists>x. evs = [Call (Remove (t @ ''.tmp'')) x, Print (upload_error_line lp t e)])"
  using assms
  by (cases e) (auto simp: upload_handler_def py_defs split: prod.splits sum.splits)

lemma upload_body_dir_raises:
  "ensure_remote_dir E t w = (Inl e, wd, d) \<Longrightarrow> upload_body E lp t w = (Inl e, wd, d)"
  by (simp add: upload_body_def py_seq_def py_bind_def Let_def)

lemma upload_body_put_raises:
  "ensure_remote_dir E t w = (Inr u, wd, d) \<Longrightarrow>
   exec E (Put lp (t @ ''.tmp'')) wd = (Inl e, wp) \<Longrightarrow>
   upload_body E lp t w = (Inl e, wp, d @ [Call (Put lp (t @ ''.tmp'')) (Inl e)])"
  by (simp add: upload_body_def py_seq_def py_bind_def call_def Let_def)

lemma upload_body_move:
  "ensure_remote_dir E t w = (Inr u, wd, d) \<Longrightarrow>
   exec E (Put lp (t @ ''.tmp'')) wd = (Inr v, wp) \<Longrightarrow>
   move_tmp E lp t (t @ ''.tmp'') wp = (rm, wm, m) \<Longrightarrow>
   upload_body E lp t w =
     (case rm of Inl e \<Rightarrow> Inl e | Inr b \<Rightarrow> Inr (), wm,
      d @ Call (Put lp (t @ ''.tmp'')) (Inr ()) # m
        @ (if rm = Inr True then [Print (uploaded_line lp t)] else []))"
  by (cases rm) (auto simp: upload_body_def py_seq_def py_bind_def call_def Let_def
      print_def py_return_def)

lemma atomic_upload_cases:
  assumes run: "atomic_upload E lp rp w = (r, w', evs)"
    and dir: "ensure_remote_dir E (upload_target lp rp) w = (rd, wd, d)"
  defines "t \<equiv> upload_target lp rp"
  defines "tmp \<equiv> upload_target lp rp @ ''.tmp''"
  shows "r = Inr () \<and> list_all dir_event d \<and>
     ((\<exists>e line. is_expected e \<and> evs = d @ [Print line])
    \<or> (\<exists>e x. \<not> is_expected e
          \<and> evs = d @ [Call (Remove tmp) x, Print (upload_error_line lp t e)])
    \<or> (\<exists>e line. is_expected e \<and> evs = d @ [Call (Put lp tmp) (Inl e), Print line])
    \<or> (\<exists>e x. \<not> is_expected e
          \<and> evs = d @ [Call (Put lp tmp) (Inl e), Call (Remove tmp) x,
                        Print (upload_error_line lp t e)])
    \<or> evs = d @ [Call (Put lp tmp) (Inr ()), Call (Rename tmp t) (Inr ()),
                  Print (uploaded_line lp t)]
    \<or> (\<exists>e1 x. evs = d @ [Call (Put lp tmp) (Inr ()), Call (Rename tmp t) (Inl e1),
                  Call (Remove t) x, Call (Rename tmp t) (Inr ()),
                  Print (uploaded_line lp t)])
    \<or> (\<exists>e1 x e2 y. evs = d @ [Call (Put lp tmp) (Inr ()), Call (Rename tmp t) (Inl e1),
                  Call (Remove t) x, Call (Rename tmp t) (Inl e2), Call (Remove tmp) y,
                  Call (Put lp t) (Inr ())])
    \<or> (\<exists>e1 x e2 y e3 z z'. evs = d @ [Call (Put lp tmp) (Inr ()),
                  Call (Rename tmp t) (Inl e1),
                  Call (Remove t) x, Call (Rename tmp t) (Inl e2), Call (Remove tmp) y,
                  Call (Put lp t) (Inl e3), Call (Remove tmp) z, Call (Remove tmp) z',
                  Print (upload_error_line lp t
                           (RuntimeError (aggregated_message e1 e3)))]))"
proof -
  have run': "py_try (upload_body E lp t) (upload_handler E lp t) w = (r, w', evs)"
    using run by (simp add: atomic_upload_def t_def Let_def)
  note dir = dir [folded t_def]
  have d: "list_all dir_event d"
    using ensure_remote_dir_events [OF dir] .
  show ?thesis
  proof (cases rd)
    case (Inl e)
    obtain rh wh h where h: "upload_handler E lp t e wd = (rh, wh, h)"
      by (metis prod_cases3)
    have "r = rh" and "evs = d @ h"
      using run' upload_body_dir_raises [of E t w e wd d lp] dir Inl h
      by (simp_all add: py_try_def)
    with upload_handler_cases [OF h] d show ?thesis
      unfolding tmp_def t_def by (cases "is_expected e") auto
  next
    case (Inr u)
    obtain rp wp where put: "exec E (Put lp (t @ ''.tmp'')) wd = (rp, wp)"
      by (metis prod.exhaust)
    show ?thesis
    proof (cases rp)
      case (Inl e)
      obtain rh wh h where h: "upload_handler E lp t e wp = (rh, wh, h)"
        by (metis prod_cases3)
      have "r = rh" and "evs = d @ Call (Put lp (t @ ''.tmp'')) (Inl e) # h"
        using run' upload_body_put_raises [of E t w u wd d lp e wp] dir Inr put Inl h
        by (simp_all add: py_try_def)
      with upload_handler_cases [OF h] d show ?thesis
        unfolding tmp_def t_def by (cases "is_expected e") auto
    next
      case put_ok: (Inr v)
      obtain rm wm m where mv: "move_tmp E lp t (t @ ''.tmp'') wp = (rm, wm, m)"
        by (metis prod_cases3)
      note body = upload_body_move [of E t w u wd d lp v wp rm wm m]
      from move_tmp_cases [OF mv] show ?thesis
      proof (elim disjE exE conjE)
        assume "rm = Inr True" "m = [Call (Rename (t @ ''.tmp'') t) (Inr ())]"
        with run' body dir Inr put put_ok mv d show ?thesis
          unfolding tmp_def t_def by (auto simp: py_try_def)
      next
        fix e1 x
        assume "rm = Inr True"
          "m = [Call (Rename (t @ ''.tmp'') t) (Inl e1), Call (Remove t) x,
                Call (Rename (t @ ''.tmp'') t) (Inr ())]"
        with run' body dir Inr put put_ok mv d show ?thesis
          unfolding tmp_def t_def by (auto simp: py_try_def)
      next
        fix e1 x e2 y
        assume "rm = Inr False"
          "m = [Call (Rename (t @ ''.tmp'') t) (Inl e1), Call (Remove t) x,
                Call (Rename (t @ ''.tmp'') t) (Inl e2), Call (Remove (t @ ''.tmp'')) y,
                Call (Put lp t) (Inr ())]"
        with run' body dir Inr put put_ok mv d show ?thesis
          unfolding tmp_def t_def by (auto simp: py_try_def)
      next
        fix e1 x e2 y e3 z
        assume rm: "rm = Inl (RuntimeError (aggregated_message e1 e3))"
          and m: "m = [Call (Rename (t @ ''.tmp'') t) (Inl e1), Call (Remove t) x,
                Call (Rename (t @ ''.tmp'') t) (Inl e2), Call (Remove (t @ ''.tmp'')) y,
                Call (Put lp t) (Inl e3), Call (Remove (t @ ''.tmp'')) z]"
        obtain rh wh h
          where h: "upload_handler E lp t (RuntimeError (aggregated_message e1 e3)) wm
                      = (rh, wh, h)"
          by (metis prod_cases3)
        have "r = rh" and "evs = d @ Call (Put lp (t @ ''.tmp'')) (Inr ()) # m @ h"
          using run' body dir Inr put put_ok mv rm h by (simp_all add: py_try_def)
        with upload_handler_cases [OF h] d m show ?thesis
          unfolding tmp_def t_def by auto
      qed
    qed
  qed
qed

lemma first_occurrence_unique:
  assumes "xs @ a # ys = xs' @ a' # ys'" "P a" "P a'"
    and "\<forall>x\<in>set xs. \<not> P x" "\<forall>x\<in>set xs'. \<not> P x"
  shows "xs = xs' \<and> a = a' \<and> ys = ys'"
  using assms
proof (induction xs arbitrary: xs')
  case Nil
  then show ?case by (cases xs') auto
next
  case (Cons x xs)
  then show ?case by (cases xs') auto
qed

lemma dir_event_not_rename: "list_all dir_event d \<Longrightarrow> Call (Rename a b) x \<notin> set d"
  by (auto simp: list_all_iff)




lemma atomic_upload_result: "fst (atomic_upload E lp rp w) = Inr ()"
proof -
  obtain r w' evs where run: "atomic_upload E lp rp w = (r, w', evs)"
    by (metis prod_cases3)
  obtain rd wd d where dir: "ensure_remote_dir E (upload_target lp rp) w = (rd, wd, d)"
    by (metis prod_cases3)
  from atomic_upload_cases [OF run dir] run show ?thesis
    by simp
qed

section \<open>The rename fallback of \<^verbatim>\<open>atomic_upload\<close>\<close>

lemma atomic_upload_after_failed_rename:
  assumes run: "atomic_upload E local_path remote_path w = (r, w', evs)"
    and t: "t = upload_target local_path remote_path"
    and tmp: "tmp = t @ ''.tmp''"
    and split: "evs = pre @ Call (Rename tmp t) (Inl rename_exc) # post"
    and first: "\<forall>x. Call (Rename tmp t) x \<notin> set pre"
  shows "r = Inr () \<and>
     ((\<exists>x. post = [Call (Remove t) x, Call (Rename tmp t) (Inr ()),
                    Print (uploaded_line local_path t)])
    \<or> (\<exists>x retry_exc y.
          post = [Call (Remove t) x, Call (Rename tmp t) (Inl retry_exc),
                  Call (Remove tmp) y, Call (Put local_path t) (Inr ())])
    \<or> (\<exists>x retry_exc y put_exc z z'.
          post = [Call (Remove t) x, Call (Rename tmp t) (Inl retry_exc),
                  Call (Remove tmp) y, Call (Put local_path t) (Inl put_exc),
                  Call (Remove tmp) z, Call (Remove tmp) z',
                  Print (upload_error_line local_path t
                           (RuntimeError (aggregated_message rename_exc put_exc)))]))"
proof -
  let ?P = "\<lambda>ev. \<exists>x. ev = Call (Rename tmp t) x"
  obtain rd wd d where dir: "ensure_remote_dir E (upload_target local_path remote_path) w
                               = (rd, wd, d)"
    by (metis prod_cases3)
  note cases = atomic_upload_cases [OF run dir, folded t, folded tmp]
  then have r: "r = Inr ()" and d: "list_all dir_event d"
    by simp_all
  have nd: "\<forall>ev\<in>set d. \<not> ?P ev"
    using d by (auto simp: list_all_iff)
  have np: "\<forall>ev\<in>set pre. \<not> ?P ev"
    using first by auto
  have mem: "Call (Rename tmp t) (Inl rename_exc) \<in> set evs"
    using split by simp
  have uniq: "\<And>e1 rest. evs = (d @ [Call (Put local_path tmp) (Inr ())])
                      @ Call (Rename tmp t) (Inl e1) # rest
                \<Longrightarrow> e1 = rename_exc \<and> rest = post"
  proof -
    fix e1 rest
    assume "evs = (d @ [Call (Put local_path tmp) (Inr ())])
                      @ Call (Rename tmp t) (Inl e1) # rest"
    with split have eq: "(d @ [Call (Put local_path tmp) (Inr ())])
                      @ Call (Rename tmp t) (Inl e1) # rest
                 = pre @ Call (Rename tmp t) (Inl rename_exc) # post"
      by simp
    have "\<forall>ev\<in>set (d @ [Call (Put local_path tmp) (Inr ())]). \<not> ?P ev"
      using nd by auto
    from first_occurrence_unique [where P = ?P, OF eq _ _ this np]
    show "e1 = rename_exc \<and> rest = post"
      by auto
  qed
  from cases have shapes:
     "(\<exists>e line. is_expected e \<and> evs = d @ [Print line])
    \<or> (\<exists>e x. \<not> is_expected e
          \<and> evs = d @ [Call (Remove tmp) x, Print (upload_error_line local_path t e)])
    \<or> (\<exists>e line. is_expected e \<and> evs = d @ [Call (Put local_path tmp) (Inl e), Print line])
    \<or> (\<exists>e x. \<not> is_expected e
          \<and> evs = d @ [Call (Put local_path tmp) (Inl e), Call (Remove tmp) x,
                        Print (upload_error_line local_path t e)])
    \<or> evs = d @ [Call (Put local_path tmp) (Inr ()), Call (Rename tmp t) (Inr ()),
                  Print (uploaded_line local_path t)]
    \<or> (\<exists>e1 x. evs = d @ [Call (Put local_path tmp) (Inr ()), Call (Rename tmp t) (Inl e1),
                  Call (Remove t) x, Call (Rename tmp t) (Inr ()),
                  Print (uploaded_line local_path t)])
    \<or> (\<exists>e1 x e2 y. evs = d @ [Call (Put local_path tmp) (Inr ()),
                  Call (Rename tmp t) (Inl e1),
                  Call (Remove t) x, Call (Rename tmp t) (Inl e2), Call (Remove tmp) y,
                  Call (Put local_path t) (Inr ())])
    \<or> (\<exists>e1 x e2 y e3 z z'. evs = d @ [Call (Put local_path tmp) (Inr ()),
                  Call (Rename tmp t) (Inl e1),
                  Call (Remove t) x, Call (Rename tmp t) (Inl e2), Call (Remove tmp) y,
                  Call (Put local_path t) (Inl e3), Call (Remove tmp) z, Call (Remove tmp) z',
                  Print (upload_error_line local_path t
                           (RuntimeError (aggregated_message e1 e3)))])"
    by simp
  then show ?thesis
  proof (elim disjE exE conjE)
    fix e line assume "evs = d @ [Print line]"
    with mem nd show ?thesis by auto
  next
    fix e x assume "evs = d @ [Call (Remove tmp) x, Print (upload_error_line local_path t e)]"
    with mem nd show ?thesis by auto
  next
    fix e line assume "evs = d @ [Call (Put local_path tmp) (Inl e), Print line]"
    with mem nd show ?thesis by auto
  next
    fix e x assume "evs = d @ [Call (Put local_path tmp) (Inl e), Call (Remove tmp) x,
                        Print (upload_error_line local_path t e)]"
    with mem nd show ?thesis by auto
  next
    assume "evs = d @ [Call (Put local_path tmp) (Inr ()), Call (Rename tmp t) (Inr ()),
                  Print (uploaded_line local_path t)]"
    with mem nd show ?thesis by auto
  next
    fix e1 x
    assume "evs = d @ [Call (Put local_path tmp) (Inr ()), Call (Rename tmp t) (Inl e1),
                  Call (Remove t) x, Call (Rename tmp t) (Inr ()),
                  Print (uploaded_line local_path t)]"
    then have "evs = (d @ [Call (Put local_path tmp) (Inr ())])
                  @ Call (Rename tmp t) (Inl e1)
                  # [Call (Remove t) x, Call (Rename tmp t) (Inr ()),
                     Print (uploaded_line local_path t)]"
      by simp
    from uniq [OF this] r show ?thesis by blast
  next
    fix e1 x e2 y
    assume "evs = d @ [Call (Put local_path tmp) (Inr ()),
                  Call (Rename tmp t) (Inl e1),
                  Call (Remove t) x, Call (Rename tmp t) (Inl e2), Call (Remove tmp) y,
                  Call (Put local_path t) (Inr ())]"
    then have "evs = (d @ [Call (Put local_path tmp) (Inr ())])
                  @ Call (Rename tmp t) (Inl e1)
                  # [Call (Remove t) x, Call (Rename tmp t) (Inl e2), Call (Remove tmp) y,
                     Call (Put local_path t) (Inr ())]"
      by simp
    from uniq [OF this] r show ?thesis by blast
  next
    fix e1 x e2 y e3 z z'
    assume "evs = d @ [Call (Put local_path tmp) (Inr ()),
                  Call (Rename tmp t) (Inl e1),
                  Call (Remove t) x, Call (Rename tmp t) (Inl e2), Call (Remove tmp) y,
                  Call (Put local_path t) (Inl e3), Call (Remove tmp) z, Call (Remove tmp) z',
                  Print (upload_error_line local_path t
                           (RuntimeError (aggregated_message e1 e3)))]"
    then have "evs = (d @ [Call (Put local_path tmp) (Inr ())])
                  @ Call (Rename tmp t) (Inl e1)
                  # [Call (Remove t) x, Call (Rename tmp t) (Inl e2), Call (Remove tmp) y,
                     Call (Put local_path t) (Inl e3), Call (Remove tmp) z,
                     Call (Remove tmp) z',
                     Print (upload_error_line local_path t
                              (RuntimeError (aggregated_message e1 e3)))]"
      by simp
    from uniq [OF this] r show ?thesis by blast
  qed
qed


text \<open>
  Claim C6.  Take any run of \<^verbatim>\<open>atomic_upload\<close> whose first rename of the temporary
  file \<open>tmp\<close> to the final target \<open>t\<close> raised \<open>rename_exc\<close>.  The calls that follow are
  exactly: remove the target (its outcome ignored) and rename again.  If the retry
  succeeds the confirmation line is printed.  If the retry fails: remove the temporary
  file (outcome ignored) and put the local file directly at the target.  If that put
  fails with \<open>put_exc\<close>: remove the temporary file (twice, outcomes ignored) and print
  one line, whose text names the local path, the target, the text of \<open>rename_exc\<close> after
  \<open>rename error:\<close> and the text of \<open>put_exc\<close> after \<open>fallback put error:\<close>.  In every
  case the function returns normally.
\<close>

theorem atomic_upload_rename_fallback:
  assumes run: "atomic_upload E local_path remote_path w = (r, w', evs)"
    and t: "t = upload_target local_path remote_path"
    and tmp: "tmp = t @ ''.tmp''"
    and split: "evs = pre @ Call (Rename tmp t) (Inl rename_exc) # post"
    and first: "\<forall>x. Call (Rename tmp t) x \<notin> set pre"
  shows "r = Inr () \<and>
     ((\<exists>x. post = [Call (Remove t) x, Call (Rename tmp t) (Inr ()),
                    Print (''Uploaded '' @ local_path @ '' to '' @ t)])
    \<or> (\<exists>x retry_exc y.
          post = [Call (Remove t) x, Call (Rename tmp t) (Inl retry_exc),
                  Call (Remove tmp) y, Call (Put local_path t) (Inr ())])
    \<or> (\<exists>x retry_exc y put_exc z z'.
          post = [Call (Remove t) x, Call (Rename tmp t) (Inl retry_exc),
                  Call (Remove tmp) y, Call (Put local_path t) (Inl put_exc),
                  Call (Remove tmp) z, Call (Remove tmp) z',
                  Print (''Error uploading '' @ local_path @ '' to '' @ t
                    @ '': Failed to move uploaded temp file to final path: rename error: ''
                    @ str rename_exc @ ''; fallback put error: '' @ str put_exc)]))"
  using atomic_upload_after_failed_rename [OF run t tmp split first]
  by (simp add: uploaded_line_def upload_error_line_def aggregated_message_def)

theorem atomic_upload_rename_fallback_witness:
  "fst (atomic_upload fs_env ''/home/u/a.txt'' ''/srv/a.txt'' fs_upload_broken) = Inr ()
   \<and> snd (snd (atomic_upload fs_env ''/home/u/a.txt'' ''/srv/a.txt'' fs_upload_broken)) =
     [Call (Chdir ''/srv'') (Inr ()),
      Call (Put ''/home/u/a.txt'' ''/srv/a.txt.tmp'') (Inr ()),
      Call (Rename ''/srv/a.txt.tmp'' ''/srv/a.txt'') (Inl (IOError ''Failure'')),
      Call (Remove ''/srv/a.txt'') (Inl (FileNotFoundError ''/srv/a.txt'')),
      Call (Rename ''/srv/a.txt.tmp'' ''/srv/a.txt'') (Inl (IOError ''Failure'')),
      Call (Remove ''/srv/a.txt.tmp'') (Inr ()),
      Call (Put ''/home/u/a.txt'' ''/srv/a.txt'') (Inl (IOError ''No space'')),
      Call (Remove ''/srv/a.txt.tmp'') (Inl (FileNotFoundError ''/srv/a.txt.tmp'')),
      Call (Remove ''/srv/a.txt.tmp'') (Inl (FileNotFoundError ''/srv/a.txt.tmp'')),
      Print (''Error uploading /home/u/a.txt to /srv/a.txt: ''
             @ ''Failed to move uploaded temp file to final path: ''
             @ ''rename error: Failure; fallback put error: No space'')]"
proof -
  let ?X = "atomic_upload fs_env ''/home/u/a.txt'' ''/srv/a.txt'' fs_upload_broken"
  have run: "?X = (fst ?X, fst (snd ?X), snd (snd ?X))"
    by simp
  have t: "''/srv/a.txt'' = upload_target ''/home/u/a.txt'' ''/srv/a.txt''"
    by (simp add: upload_target_srv_a)
  have tmp: "''/srv/a.txt.tmp'' = ''/srv/a.txt'' @ ''.tmp''"
    by simp
  have split: "snd (snd ?X) =
     [Call (Chdir ''/srv'') (Inr ()), Call (Put ''/home/u/a.txt'' ''/srv/a.txt.tmp'') (Inr ())]
     @ Call (Rename ''/srv/a.txt.tmp'' ''/srv/a.txt'') (Inl (IOError ''Failure''))
     # [Call (Remove ''/srv/a.txt'') (Inl (FileNotFoundError ''/srv/a.txt'')),
        Call (Rename ''/srv/a.txt.tmp'' ''/srv/a.txt'') (Inl (IOError ''Failure'')),
        Call (Remove ''/srv/a.txt.tmp'') (Inr ()),
        Call (Put ''/home/u/a.txt'' ''/srv/a.txt'') (Inl (IOError ''No space'')),
        Call (Remove ''/srv/a.txt.tmp'') (Inl (FileNotFoundError ''/srv/a.txt.tmp'')),
        Call (Remove ''/srv/a.txt.tmp'') (Inl (FileNotFoundError ''/srv/a.txt.tmp'')),
        Print (upload_error_line ''/home/u/a.txt'' ''/srv/a.txt''
                 (RuntimeError (aggregated_message (IOError ''Failure'')
                    (IOError ''No space''))))]"
    by (simp add: upload_broken_run)
  have first: "\<forall>x. Call (Rename ''/srv/a.txt.tmp'' ''/srv/a.txt'') x
                  \<notin> set [Call (Chdir ''/srv'') (Inr ()),
                           Call (Put ''/home/u/a.txt'' ''/srv/a.txt.tmp'') (Inr ())]"
    by simp
  from atomic_upload_rename_fallback [OF run t tmp split first]
  have "fst ?X = Inr ()"
    by simp
  then show ?thesis
    by (simp add: upload_broken_run upload_error_line_def aggregated_message_def)
qed


section \<open>The filter of \<^verbatim>\<open>sync_push\<close>\<close>

lemma push_filter_eq:
  "push_filter fname include exclude =
     (if (include \<noteq> [] \<and> \<not> fnmatch fname (hd include))
          \<or> (exclude \<noteq> [] \<and> \<not> fnmatch fname (hd exclude))
      then Inl rel_path_unbound
      else Inr (exclude = []))"
  by (cases "include"; cases exclude) (auto simp: push_filter_def push_test_def)

lemma push_step_eq:
  "push_step E local_dir remote_dir include exclude rel w =
     (if (include \<noteq> [] \<and> \<not> fnmatch (basename rel) (hd include))
          \<or> (exclude \<noteq> [] \<and> \<not> fnmatch (basename rel) (hd exclude))
      then (Inl rel_path_unbound, w, [])
      else py_seq (push_mkdirs E (join remote_dir rel))
             (atomic_upload E (join local_dir rel) (join remote_dir rel)) w)"
proof -
  obtain r w' evs where run: "py_seq (push_mkdirs E (join remote_dir rel))
             (atomic_upload E (join local_dir rel) (join remote_dir rel)) w = (r, w', evs)"
    by (metis prod_cases3)
  show ?thesis
    unfolding push_step_def push_filter_eq
    using run by (simp add: py_bind_def py_lift_def)
qed


lemma sync_push_star_run:
  "fst (sync_push env_local_a ''/home/u'' ''/srv'' [''*''] [] fs_local_a) = Inr ()"
  "snd (snd (sync_push env_local_a ''/home/u'' ''/srv'' [''*''] [] fs_local_a)) =
     [Call (Chdir ''/srv'') (Inr ()),
      Call (Chdir ''/srv'') (Inr ()),
      Call (Put ''/home/u/a.txt'' ''/srv/a.txt.tmp'') (Inr ()),
      Call (Rename ''/srv/a.txt.tmp'' ''/srv/a.txt'') (Inr ()),
      Print (uploaded_line ''/home/u/a.txt'' ''/srv/a.txt'')]"
proof -
  let ?up = "atomic_upload env_local_a ''/home/u/a.txt'' ''/srv/a.txt'' fs_local_a"
  have up: "?up = (fst ?up, fst (snd ?up), snd (snd ?up))"
    by simp
  have step: "push_step env_local_a ''/home/u'' ''/srv'' [''*''] [] ''a.txt'' fs_local_a =
      (Inr (), fst (snd ?up), Call (Chdir ''/srv'') (Inr ()) # snd (snd ?up))"
    apply (subst push_step_eq)
    apply (simp add: basename_plain_a fnmatch_star_a join_srv_a join_home_a py_seq_def
        py_bind_def push_mkdirs_a_run env_local_a_fields)
    apply (subst up)
    apply (simp add: upload_a_run env_local_a_fields)
    done
  show "fst (sync_push env_local_a ''/home/u'' ''/srv'' [''*''] [] fs_local_a) = Inr ()"
    by (simp add: sync_push_def list_local_a py_bind_def py_lift_def py_seq_def step
        py_return_def)
  show "snd (snd (sync_push env_local_a ''/home/u'' ''/srv'' [''*''] [] fs_local_a)) =
     [Call (Chdir ''/srv'') (Inr ()),
      Call (Chdir ''/srv'') (Inr ()),
      Call (Put ''/home/u/a.txt'' ''/srv/a.txt.tmp'') (Inr ()),
      Call (Rename ''/srv/a.txt.tmp'' ''/srv/a.txt'') (Inr ()),
      Print (uploaded_line ''/home/u/a.txt'' ''/srv/a.txt'')]"
    by (simp add: sync_push_def list_local_a py_bind_def py_lift_def py_seq_def step
        py_return_def upload_a_run env_local_a_fields)
qed

text \<open>
  Claim C10, as amended.  Let \<open>rel\<close> be the first key of the scanned local mapping.  If
  the include list is non-empty and its first pattern does not match the basename of
  \<open>rel\<close>, or the exclude list is non-empty and its first pattern does not match it, then
  evaluating the unbound name \<open>rel_path\<close> raises \<open>NameError\<close>: \<^verbatim>\<open>sync_push\<close> stops
  there, having made no call and printed nothing.  Otherwise no \<open>NameError\<close> is raised
  for \<open>rel\<close>: whatever the filter computed, the remote directories are probed and
  \<open>rel\<close> is uploaded, and the loop goes on with the remaining keys.
\<close>

theorem sync_push_name_error:
  assumes scan: "list_local E local_dir w = Inr ((rel, m) # rest)"
  shows "sync_push E local_dir remote_dir inc exc w =
     (if (inc \<noteq> [] \<and> \<not> fnmatch (basename rel) (hd inc))
          \<or> (exc \<noteq> [] \<and> \<not> fnmatch (basename rel) (hd exc))
      then (Inl rel_path_unbound, w, [])
      else py_seq
             (py_seq (push_mkdirs E (join remote_dir rel))
                     (atomic_upload E (join local_dir rel) (join remote_dir rel)))
             (py_for (push_step E local_dir remote_dir inc exc) (map fst rest)) w)"
  by (simp add: sync_push_def scan py_lift_def py_bind_def py_seq_def push_step_eq)

theorem sync_push_name_error_witness:
  "sync_push env_local_a ''/home/u'' ''/srv'' [''*.md''] [] fs_local_a =
     (Inl rel_path_unbound, fs_local_a, [])"
  using sync_push_name_error [OF list_local_a, where w = fs_local_a and remote_dir = "''/srv''"
      and inc = "[''*.md'']" and exc = "[]"]
  by (simp add: basename_plain_a fnmatch_md_a)

text \<open>
  Claim C10 as stated fails: with the include list \<open>[*]\<close> (non-empty) and one local
  file, the first pattern matches the basename, the name \<open>rel_path\<close> is never
  evaluated, and the push completes having uploaded the file.
\<close>

theorem sync_push_filtered_completes_counterexample:
  "fst (sync_push env_local_a ''/home/u'' ''/srv'' [''*''] [] fs_local_a) = Inr ()
   \<and> snd (snd (sync_push env_local_a ''/home/u'' ''/srv'' [''*''] [] fs_local_a)) =
     [Call (Chdir ''/srv'') (Inr ()),
      Call (Chdir ''/srv'') (Inr ()),
      Call (Put ''/home/u/a.txt'' ''/srv/a.txt.tmp'') (Inr ()),
      Call (Rename ''/srv/a.txt.tmp'' ''/srv/a.txt'') (Inr ()),
      Print (uploaded_line ''/home/u/a.txt'' ''/srv/a.txt'')]"
  by (simp add: sync_push_star_run)



section \<open>The loops of the sync entry points\<close>




lemma sync_bidirectional_loop:
  assumes "list_local E local_dir w = Inr local_files"
    and "list_remote E remote_dir w = Inr remote_files_raw"
    and "rekey (os_getcwd E w) (rstrip_slash remote_dir) remote_files_raw [] = Inr remote_files"
  shows "sync_bidirectional E visit local_dir remote_dir inc exc w =
     py_for (bidirectional_step E local_dir (rstrip_slash remote_dir) local_files remote_files
               inc exc)
       (visit (remdups (map fst local_files @ map fst remote_files))) w"
  using assms by (simp add: sync_bidirectional_def py_bind_def py_lift_def split: prod.splits)







section \<open>The decision rule of \<^verbatim>\<open>sync_bidirectional\<close>\<close>

lemma basename_no_slash: "CHR ''/'' \<notin> set (basename p)"
  by (auto simp: basename_def dest: set_takeWhileD)

lemma join_basename: "\<exists>sep. join a (basename p) = a @ sep @ basename p"
proof -
  have "\<not> startswith (basename p) ''/''"
    using basename_no_slash [of p] by (cases "basename p") (auto simp: startswith_def)
  then show ?thesis
    by (auto simp: join_def intro: exI [of _ "[]"])
qed

lemma download_target_prefix: "\<exists>suffix. download_target E rp lp w = lp @ suffix"
proof -
  define lp1 where "lp1 = (if os_path_isdir E lp w then join lp (basename rp) else lp)"
  define lp2 where "lp2 = (if endswith_slash lp1 \<or> basename lp1 = []
                           then join lp1 (basename rp) else lp1)"
  have t: "download_target E rp lp w = (if basename lp2 = [] then lp2 @ ''.tmp'' else lp2)"
    by (simp add: download_target_def lp1_def lp2_def Let_def)
  have "\<exists>s1. lp1 = lp @ s1"
  proof (cases "os_path_isdir E lp w")
    case True
    with join_basename [of lp rp] show ?thesis by (auto simp: lp1_def)
  next
    case False
    then show ?thesis by (simp add: lp1_def)
  qed
  then obtain s1 where s1: "lp1 = lp @ s1" ..
  have "\<exists>s2. lp2 = lp1 @ s2"
  proof (cases "endswith_slash lp1 \<or> basename lp1 = []")
    case True
    with join_basename [of lp1 rp] show ?thesis by (auto simp: lp2_def)
  next
    case False
    then show ?thesis by (simp add: lp2_def)
  qed
  then obtain s2 where s2: "lp2 = lp1 @ s2" ..
  show ?thesis
    unfolding t using s1 s2 by auto
qed

lemma download_target_remote_neq:
  "download_target E rp (lfile @ ''.remote'') w \<noteq> lfile"
  "download_target E rp (lfile @ ''.remote'') w @ ''.tmp'' \<noteq> lfile"
proof -
  from download_target_prefix [of E rp "lfile @ ''.remote''" w]
  obtain suffix where "download_target E rp (lfile @ ''.remote'') w = lfile @ ''.remote'' @ suffix"
    by auto
  then have len: "length (download_target E rp (lfile @ ''.remote'') w) > length lfile"
    by simp
  show "download_target E rp (lfile @ ''.remote'') w \<noteq> lfile"
    using len by auto
  show "download_target E rp (lfile @ ''.remote'') w @ ''.tmp'' \<noteq> lfile"
    using len by (metis length_append less_imp_le_nat not_add_less1 not_le)
qed

lemma conflict_events_local:
  assumes run: "py_seq (atomic_download E rfile (lfile @ ''.remote'')) (print line) w
                  = (r, w', evs)"
    and mem: "Call c x \<in> set evs"
  shows "(\<exists>d. c = Makedirs d)
       \<or> (\<exists>dst. c = Get rfile dst \<and> dst \<noteq> lfile)
       \<or> (\<exists>src dst. c = Replace src dst \<and> src \<noteq> lfile \<and> dst \<noteq> lfile)
       \<or> (\<exists>p. c = OsRemove p \<and> p \<noteq> lfile)"
proof -
  obtain rd wd ed where d: "atomic_download E rfile (lfile @ ''.remote'') w = (rd, wd, ed)"
    by (metis prod_cases3)
  have "Call c x \<in> set ed"
    using run mem d by (cases rd) (auto simp: py_seq_def py_bind_def print_def)
  from atomic_download_calls [OF d this] download_target_remote_neq [of E rfile lfile w]
  show ?thesis
    by auto
qed


section \<open>The pattern filter of \<^verbatim>\<open>sync_pull\<close> and \<^verbatim>\<open>sync_bidirectional\<close>\<close>

lemma filter_examples:
  "fnmatch ''notes/plan.txt'' ''notes/*''"
  "\<not> fnmatch ''plan.txt'' ''notes/*''"
  "fnmatch ''secret.txt'' ''*.txt''" "fnmatch ''secret.txt'' ''secret*''"
  "fnmatch ''plan.txt'' ''*.txt''" "\<not> fnmatch ''plan.txt'' ''secret*''"
  "\<not> fnmatch ''plan.md'' ''*.txt''"
  "basename ''notes/secret.txt'' = ''secret.txt''"
  "basename ''notes/plan.txt'' = ''plan.txt''"
  "basename ''notes/plan.md'' = ''plan.md''"
  by code_simp+

text \<open>
  What the two loop bodies test: the basename of the key against the patterns, and
  nothing else.  A key that is skipped produces no event; a key that is not skipped is
  handled as if there were no filter.
\<close>

lemma basename_filter:
  "pull_step E remote_dir local_dir inc exc key w =
     (if (inc = [] \<or> (\<exists>pat\<in>set inc. fnmatch (basename key) pat))
          \<and> \<not> (\<exists>pat\<in>set exc. fnmatch (basename key) pat)
      then py_bind (\<lambda>w. py_lift (relpath (os_getcwd E w) key remote_dir) w)
             (\<lambda>rel_path.
                py_seq (call E (Makedirs (dirname (join local_dir rel_path))))
                       (atomic_download E key (join local_dir rel_path))) w
      else (Inr (), w, []))
   \<and> bidirectional_step E local_dir remote_dir local_files remote_files inc exc key w =
     (if (inc = [] \<or> (\<exists>pat\<in>set inc. fnmatch (basename key) pat))
          \<and> \<not> (\<exists>pat\<in>set exc. fnmatch (basename key) pat)
      then bidirectional_step E local_dir remote_dir local_files remote_files [] [] key w
      else (Inr (), w, []))"
  by (auto simp: pull_step_def bidirectional_step_def any_match_def list_ex_iff Let_def
      py_return_def)

lemma env_remote_notes_fields:
  "exec env_remote_notes = fs_exec" "os_getcwd env_remote_notes w = ''/home/u''"
  "listdir_tree env_remote_notes ''/srv'' w = Inr [RDir ''notes'' [RFile ''plan.txt'' meta_a]]"
  "os_path_isdir env_remote_notes p w = (p \<in> ldirs w)"
  "os_walk env_remote_notes p w = None"
  by (simp_all add: env_remote_notes_def fs_env_def)

lemma fs_remote_notes_fields:
  "lfiles fs_remote_notes = Map.empty" "ldirs fs_remote_notes = {}"
  "rfiles fs_remote_notes = [''/srv/notes/plan.txt'' \<mapsto> ''hi'']"
  "rdirs fs_remote_notes = {}" "faults fs_remote_notes = Map.empty"
  by (simp_all add: fs_empty_def fs_remote_notes_def)

lemma notes_paths:
  "join ''/srv'' ''notes'' = ''/srv/notes''"
  "join [] ''notes'' = ''notes''"
  "join ''/srv/notes'' ''plan.txt'' = ''/srv/notes/plan.txt''"
  "join ''/srv'' ''notes/plan.txt'' = ''/srv/notes/plan.txt''"
  "join ''/home/u'' ''notes/plan.txt'' = ''/home/u/notes/plan.txt''"
  "relpath ''/home/u'' ''/srv/notes/plan.txt'' ''/srv'' = Inr ''notes/plan.txt''"
  "basename ''/srv/notes/plan.txt'' = ''plan.txt''"
  "basename ''/home/u/notes/plan.txt'' = ''plan.txt''"
  "dirname ''/home/u/notes/plan.txt'' = ''/home/u/notes''"
  "\<not> endswith_slash ''/home/u/notes/plan.txt''"
  by code_simp+

lemma list_remote_notes:
  "list_remote env_remote_notes ''/srv'' w = Inr [(''/srv/notes/plan.txt'', meta_a)]"
  by (simp add: list_remote_def env_remote_notes_fields notes_paths)

lemma target_notes:
  "''/home/u/notes/plan.txt'' \<notin> ldirs w \<Longrightarrow>
   download_target env_remote_notes rp ''/home/u/notes/plan.txt'' w = ''/home/u/notes/plan.txt''"
  by (simp add: download_target_def env_remote_notes_fields notes_paths)

lemma map_tmp_moved: "(Map.empty(a \<mapsto> c))(a := None, b \<mapsto> c) = [b \<mapsto> c]"
  by (rule ext) simp

lemma download_notes_run:
  "atomic_download env_remote_notes ''/srv/notes/plan.txt'' ''/home/u/notes/plan.txt''
     (fs_remote_notes\<lparr>ldirs := {''/home/u/notes''}\<rparr>) =
     (Inr (),
      fs_remote_notes\<lparr>ldirs := {''/home/u/notes''},
                       lfiles := [''/home/u/notes/plan.txt'' \<mapsto> ''hi'']\<rparr>,
      tl notes_events)"
  by (simp add: atomic_download_def target_notes download_body_def notes_paths notes_events_def
      download_handler_def py_defs Let_def env_remote_notes_fields fs_exec_def
      fs_remote_notes_fields map_tmp_moved)

lemma pull_step_notes_run:
  "pull_step env_remote_notes ''/srv'' ''/home/u'' [] [''notes/*''] ''/srv/notes/plan.txt''
     fs_remote_notes =
     (Inr (),
      fs_remote_notes\<lparr>ldirs := {''/home/u/notes''},
                       lfiles := [''/home/u/notes/plan.txt'' \<mapsto> ''hi'']\<rparr>,
      notes_events)"
  by (simp add: pull_step_def env_remote_notes_fields notes_paths any_match_def filter_examples
      py_bind_def py_seq_def py_lift_def call_def Let_def fs_exec_def fs_remote_notes_fields
      download_notes_run notes_events_def)

lemma sync_pull_notes_run:
  "sync_pull env_remote_notes ''/srv'' ''/home/u'' [] [''notes/*''] fs_remote_notes =
     (Inr (),
      fs_remote_notes\<lparr>ldirs := {''/home/u/notes''},
                       lfiles := [''/home/u/notes/plan.txt'' \<mapsto> ''hi'']\<rparr>,
      notes_events)"
  by (simp add: sync_pull_def list_remote_notes rstrip_srv pull_step_notes_run py_bind_def
      py_seq_def py_lift_def py_return_def)

lemma bidirectional_step_notes_run:
  "bidirectional_step env_remote_notes ''/home/u'' ''/srv'' [] [(''notes/plan.txt'', meta_a)]
     [] [''notes/*''] ''notes/plan.txt'' fs_remote_notes =
     (Inr (),
      fs_remote_notes\<lparr>ldirs := {''/home/u/notes''},
                       lfiles := [''/home/u/notes/plan.txt'' \<mapsto> ''hi'']\<rparr>,
      notes_events)"
  by (simp add: bidirectional_step_def env_remote_notes_fields notes_paths any_match_def
      filter_examples py_bind_def py_seq_def py_lift_def call_def Let_def fs_exec_def
      fs_remote_notes_fields download_notes_run notes_events_def)

lemma sync_bidirectional_notes_run:
  "sync_bidirectional env_remote_notes (\<lambda>keys. keys) ''/home/u'' ''/srv'' [] [''notes/*'']
     fs_remote_notes =
     (Inr (),
      fs_remote_notes\<lparr>ldirs := {''/home/u/notes''},
                       lfiles := [''/home/u/notes/plan.txt'' \<mapsto> ''hi'']\<rparr>,
      notes_events)"
  by (simp add: sync_bidirectional_def list_local_def list_remote_notes rstrip_srv
      env_remote_notes_fields notes_paths bidirectional_step_notes_run py_bind_def
      py_seq_def py_lift_def py_return_def)

text \<open>
  Claim C2 does not hold of \<^verbatim>\<open>sync_pull\<close> and \<^verbatim>\<open>sync_bidirectional\<close>.  The rule of
  the claim rejects a path whose full relative path matches an exclude pattern, and
  the filter expressions of \<^verbatim>\<open>sync_push\<close> and \<^verbatim>\<open>dry_run_sync_push\<close> name both the
  basename and the relative path; these two functions match the basename only.  The
  remote tree under \<open>/srv\<close> holds the one file \<open>notes/plan.txt\<close>, and the exclude list is
  \<open>[notes/*]\<close>: the relative path matches the pattern, and both functions download
  the file.
\<close>

theorem exclude_full_path_not_rejected:
  "fnmatch ''notes/plan.txt'' ''notes/*''
   \<and> sync_pull env_remote_notes ''/srv'' ''/home/u'' [] [''notes/*''] fs_remote_notes =
       (Inr (),
        fs_remote_notes\<lparr>ldirs := {''/home/u/notes''},
                         lfiles := [''/home/u/notes/plan.txt'' \<mapsto> ''hi'']\<rparr>,
        [Call (Makedirs ''/home/u/notes'') (Inr ()),
         Call (Makedirs ''/home/u/notes'') (Inr ()),
         Call (Get ''/srv/notes/plan.txt'' ''/home/u/notes/plan.txt.tmp'') (Inr ()),
         Call (Replace ''/home/u/notes/plan.txt.tmp'' ''/home/u/notes/plan.txt'') (Inr ()),
         Print ''Downloaded /srv/notes/plan.txt to /home/u/notes/plan.txt''])
   \<and> sync_bidirectional env_remote_notes (\<lambda>keys. keys) ''/home/u'' ''/srv'' [] [''notes/*'']
       fs_remote_notes =
       (Inr (),
        fs_remote_notes\<lparr>ldirs := {''/home/u/notes''},
                         lfiles := [''/home/u/notes/plan.txt'' \<mapsto> ''hi'']\<rparr>,
        [Call (Makedirs ''/home/u/notes'') (Inr ()),
         Call (Makedirs ''/home/u/notes'') (Inr ()),
         Call (Get ''/srv/notes/plan.txt'' ''/home/u/notes/plan.txt.tmp'') (Inr ()),
         Call (Replace ''/home/u/notes/plan.txt.tmp'' ''/home/u/notes/plan.txt'') (Inr ()),
         Print ''Downloaded /srv/notes/plan.txt to /home/u/notes/plan.txt''])"
  by (simp add: filter_examples sync_pull_notes_run sync_bidirectional_notes_run
      notes_events_def downloaded_line_def)


section \<open>Transfer failures inside a sync run\<close>













lemma b_paths:
  "join ''/home/u'' ''b.txt'' = ''/home/u/b.txt''"
  "relpath ''/home/u'' ''/srv/b.txt'' ''/srv'' = Inr ''b.txt''"
  "basename ''/home/u/b.txt'' = ''b.txt''"
  "dirname ''/home/u/b.txt'' = ''/home/u''"
  "basename ''/srv/b.txt'' = ''b.txt''"
  "normpath (join ''.'' ''b.txt'') = ''b.txt''"
  "\<not> startswith ''b.txt'' ''..''"
  "\<not> endswith_slash ''/home/u/a.txt''"
  "\<not> endswith_slash ''/home/u/b.txt''"
  by code_simp+

lemma remote_paths:
  "basename ''/home/u/a.txt.remote'' = ''a.txt.remote''"
  "dirname ''/home/u/a.txt.remote'' = ''/home/u''"
  "\<not> endswith_slash ''/home/u/a.txt.remote''"
  "join ''/home/u'' ''a.txt'' @ ''.remote'' = ''/home/u/a.txt.remote''"
  by code_simp+

lemma pull_missing_a_run:
  "pull_step env_remote_ab ''/srv'' ''/home/u'' [] [] ''/srv/a.txt'' fs_empty =
     (Inr (), fs_empty\<lparr>ldirs := {''/home/u''}\<rparr>,
      [Call (Makedirs ''/home/u'') (Inr ()),
       Call (Makedirs ''/home/u'') (Inr ()),
       Call (Get ''/srv/a.txt'' ''/home/u/a.txt.tmp'') (Inl (FileNotFoundError ''/srv/a.txt'')),
       Print (remote_not_found_line ''/srv/a.txt'')])"
  by (simp add: pull_step_def env_remote_ab_fields relpath_srv_a join_home_a dirname_home_u_a
      py_defs py_lift_def Let_def fs_exec_def fs_empty_fields atomic_download_def
      download_target_def download_body_def download_handler_def basename_a_txt b_paths)

lemma pull_missing_b_run:
  "pull_step env_remote_ab ''/srv'' ''/home/u'' [] [] ''/srv/b.txt''
     (fs_empty\<lparr>ldirs := {''/home/u''}\<rparr>) =
     (Inr (), fs_empty\<lparr>ldirs := {''/home/u''}\<rparr>,
      [Call (Makedirs ''/home/u'') (Inr ()),
       Call (Makedirs ''/home/u'') (Inr ()),
       Call (Get ''/srv/b.txt'' ''/home/u/b.txt.tmp'') (Inl (FileNotFoundError ''/srv/b.txt'')),
       Print (remote_not_found_line ''/srv/b.txt'')])"
  by (simp add: pull_step_def env_remote_ab_fields py_defs py_lift_def Let_def fs_exec_def
      fs_empty_fields atomic_download_def download_target_def download_body_def
      download_handler_def b_paths)

lemma sync_pull_missing_run:
  "sync_pull env_remote_ab ''/srv'' ''/home/u'' [] [] fs_empty =
     (Inr (), fs_empty\<lparr>ldirs := {''/home/u''}\<rparr>,
      [Call (Makedirs ''/home/u'') (Inr ()),
       Call (Makedirs ''/home/u'') (Inr ()),
       Call (Get ''/srv/a.txt'' ''/home/u/a.txt.tmp'') (Inl (FileNotFoundError ''/srv/a.txt'')),
       Print (remote_not_found_line ''/srv/a.txt''),
       Call (Makedirs ''/home/u'') (Inr ()),
       Call (Makedirs ''/home/u'') (Inr ()),
       Call (Get ''/srv/b.txt'' ''/home/u/b.txt.tmp'') (Inl (FileNotFoundError ''/srv/b.txt'')),
       Print (remote_not_found_line ''/srv/b.txt'')])"
  by (simp add: sync_pull_def list_remote_ab rstrip_srv pull_missing_a_run pull_missing_b_run
      py_bind_def py_seq_def py_lift_def py_return_def)




lemma env_both_ab_fields:
  "exec env_both_ab = fs_exec" "os_getcwd env_both_ab w = ''/home/u''"
  "os_walk env_both_ab ''/home/u'' w
     = Some [LFile ''a.txt'' (Inr meta_a), LFile ''b.txt'' (Inr meta_a)]"
  "listdir_tree env_both_ab ''/srv'' w = Inr [RFile ''a.txt'' meta_a, RFile ''b.txt'' meta_a]"
  "os_path_isdir env_both_ab p w = (p \<in> ldirs w)"
  "float_sub env_both_ab x y = x - y"
  by (simp_all add: env_both_ab_def fs_env_def)

lemma fs_conflict_broken_fields:
  "lfiles fs_conflict_broken = Map.empty" "ldirs fs_conflict_broken = {}"
  "rfiles fs_conflict_broken = Map.empty" "rdirs fs_conflict_broken = {}"
  "faults fs_conflict_broken
     = [Get ''/srv/a.txt'' ''/home/u/a.txt.remote.tmp'' \<mapsto> IOError ''Failure'']"
  by (simp_all add: fs_empty_def fs_conflict_broken_def)

lemma list_local_both: "list_local env_both_ab ''/home/u'' w
    = Inr [(''a.txt'', meta_a), (''b.txt'', meta_a)]"
  by (simp add: list_local_def env_both_ab_fields relpath_home_u normpath_dot_a startswith_a
      b_paths)

lemma list_remote_both: "list_remote env_both_ab ''/srv'' w
    = Inr [(''/srv/a.txt'', meta_a), (''/srv/b.txt'', meta_a)]"
  by (simp add: list_remote_def env_both_ab_fields join_srv_a join_srv_b)

lemma rekey_both:
  "rekey ''/home/u'' ''/srv'' [(''/srv/a.txt'', meta_a), (''/srv/b.txt'', meta_a)] []
     = Inr [(''a.txt'', meta_a), (''b.txt'', meta_a)]"
  by (simp add: relpath_srv_a b_paths)

lemma conflict_broken_step:
  "bidirectional_step env_both_ab ''/home/u'' ''/srv''
     [(''a.txt'', meta_a), (''b.txt'', meta_a)] [(''a.txt'', meta_a), (''b.txt'', meta_a)]
     [] [] ''a.txt'' fs_conflict_broken =
     (Inl (RuntimeError (download_failed_message ''/srv/a.txt'' ''/home/u/a.txt.remote''
             (IOError ''Failure''))),
      fs_conflict_broken\<lparr>ldirs := {''/home/u''}\<rparr>, broken_conflict_events)"
  by (simp add: bidirectional_step_def meta_a_def env_both_ab_fields join_srv_a join_home_a
      remote_paths Let_def py_defs fs_exec_def fs_conflict_broken_fields atomic_download_def
      download_target_def download_body_def download_handler_def broken_conflict_events_def)

lemma sync_bidirectional_broken_run:
  "sync_bidirectional env_both_ab (\<lambda>keys. keys) ''/home/u'' ''/srv'' [] [] fs_conflict_broken =
     (Inl (RuntimeError (download_failed_message ''/srv/a.txt'' ''/home/u/a.txt.remote''
             (IOError ''Failure''))),
      fs_conflict_broken\<lparr>ldirs := {''/home/u''}\<rparr>, broken_conflict_events)"
proof -
  have rk: "rekey (os_getcwd env_both_ab fs_conflict_broken) (rstrip_slash ''/srv'')
              [(''/srv/a.txt'', meta_a), (''/srv/b.txt'', meta_a)] []
            = Inr [(''a.txt'', meta_a), (''b.txt'', meta_a)]"
    unfolding env_both_ab_fields rstrip_srv by (rule rekey_both)
  show ?thesis
    unfolding sync_bidirectional_loop [OF list_local_both list_remote_both rk]
    by (simp add: rstrip_srv conflict_broken_step py_seq_def py_bind_def)
qed









section \<open>Round trip on the reference transport\<close>

lemma same_files_refl: "same_files w w"
  by (simp add: same_files_def)

lemma same_files_trans: "same_files w w1 \<Longrightarrow> same_files w1 w2 \<Longrightarrow> same_files w w2"
  by (simp add: same_files_def)

lemma fs_mkdir_step:
  assumes "faults w = Map.empty"
    and "swallow_IOError (call fs_env (Mkdir p)) w = (r, w', evs)"
  shows "r = Inr () \<and> same_files w w'"
  using assms
  by (auto simp: py_defs exec_fs_env fs_exec_def same_files_def split: if_splits)

lemma mkdir_parts_fs:
  "faults w = Map.empty \<Longrightarrow> mkdir_parts fs_env cur ps w = (r, w', evs)
   \<Longrightarrow> r = Inr () \<and> same_files w w'"
proof (induction ps arbitrary: cur w r w' evs)
  case Nil
  then show ?case by (simp add: py_return_def same_files_refl)
next
  case (Cons part rest)
  let ?cur = "if cur \<noteq> [] then join cur part else part"
  obtain r1 w1 e1 where step: "swallow_IOError (call fs_env (Mkdir ?cur)) w = (r1, w1, e1)"
    by (metis prod_cases3)
  from fs_mkdir_step [OF Cons.prems(1) step] have r1: "r1 = Inr ()" and s1: "same_files w w1"
    by simp_all
  obtain r2 w2 e2 where rest: "mkdir_parts fs_env ?cur rest w1 = (r2, w2, e2)"
    by (metis prod_cases3)
  have "faults w1 = Map.empty"
    using s1 Cons.prems(1) by (simp add: same_files_def)
  from Cons.IH [OF this rest] have "r2 = Inr ()" and s2: "same_files w1 w2"
    by simp_all
  moreover have "r = r2" and "w' = w2"
    using Cons.prems(2) step r1 rest by (simp_all add: py_seq_def py_bind_def Let_def)
  ultimately show ?case
    using same_files_trans [OF s1 s2] by simp
qed

lemma ensure_remote_dir_fs:
  assumes f: "faults w = Map.empty"
    and run: "ensure_remote_dir fs_env t w = (r, w', evs)"
  shows "r = Inr () \<and> same_files w w'"
proof (cases "dirname t \<noteq> [] \<and> dirname t \<noteq> ''.''")
  case False
  with run show ?thesis
    by (auto simp: ensure_remote_dir_def Let_def py_return_def same_files_refl)
next
  case True
  show ?thesis
  proof (cases "dirname t \<in> rdirs w")
    case in_dirs: True
    with run True f show ?thesis
      by (auto simp: ensure_remote_dir_def Let_def py_try_def call_def exec_fs_env fs_exec_def
          same_files_refl)
  next
    case False
    obtain r2 w2 e2 where m: "mkdir_parts fs_env [] (parts (dirname t)) w = (r2, w2, e2)"
      by (metis prod_cases3)
    from mkdir_parts_fs [OF f m] have "r2 = Inr ()" "same_files w w2"
      by simp_all
    with run True False f m show ?thesis
      by (auto simp: ensure_remote_dir_def Let_def py_try_def call_def exec_fs_env fs_exec_def)
  qed
qed


lemma tmp_neq: "t @ ''.tmp'' \<noteq> t"
  by simp

lemma move_tmp_first_ok:
  "exec E (Rename tmp t) w = (Inr (), w') \<Longrightarrow>
   move_tmp E lp t tmp w = (Inr True, w', [Call (Rename tmp t) (Inr ())])"
  by (simp add: move_tmp_def py_defs)

lemma move_tmp_retry_ok:
  "exec E (Rename tmp t) w = (Inl e, w1) \<Longrightarrow> exec E (Remove t) w1 = (x, w2) \<Longrightarrow>
   exec E (Rename tmp t) w2 = (Inr (), w3) \<Longrightarrow>
   move_tmp E lp t tmp w =
     (Inr True, w3, [Call (Rename tmp t) (Inl e), Call (Remove t) x,
                     Call (Rename tmp t) (Inr ())])"
  by (cases x) (simp_all add: move_tmp_def py_defs)

lemma upload_fs_clean:
  assumes f: "faults w = Map.empty"
    and c: "lfiles w lp = Some content"
    and run: "atomic_upload fs_env lp rp w = (r, w1, evs)"
    and t: "t = upload_target lp rp"
  shows "r = Inr () \<and> rfiles w1 t = Some content \<and> rfiles w1 (t @ ''.tmp'') = None
       \<and> lfiles w1 = lfiles w \<and> ldirs w1 = ldirs w \<and> faults w1 = faults w"
proof -
  obtain rd wd d where dir: "ensure_remote_dir fs_env t w = (rd, wd, d)"
    by (metis prod_cases3)
  from ensure_remote_dir_fs [OF f dir] have rd: "rd = Inr ()" and same: "same_files w wd"
    by simp_all
  have fd: "faults wd = Map.empty" and cd: "lfiles wd lp = Some content"
    and ld: "lfiles wd = lfiles w" and dd: "ldirs wd = ldirs w"
    using same f c by (simp_all add: same_files_def)
  let ?wp = "wd\<lparr>rfiles := (rfiles wd)(t @ ''.tmp'' \<mapsto> content)\<rparr>"
  have put: "exec fs_env (Put lp (t @ ''.tmp'')) wd = (Inr (), ?wp)"
    by (simp add: exec_fs_env fs_exec_def fd cd)
  obtain rm wm m where mv: "move_tmp fs_env lp t (t @ ''.tmp'') ?wp = (rm, wm, m)"
    by (metis prod_cases3)
  have mv_ok: "rm = Inr True \<and> rfiles wm t = Some content \<and> rfiles wm (t @ ''.tmp'') = None
       \<and> lfiles wm = lfiles w \<and> ldirs wm = ldirs w \<and> faults wm = faults w"
  proof (cases "rfiles wd t")
    case None
    let ?w3 = "?wp\<lparr>rfiles := (rfiles ?wp)(t @ ''.tmp'' := None, t \<mapsto> content)\<rparr>"
    have "exec fs_env (Rename (t @ ''.tmp'') t) ?wp = (Inr (), ?w3)"
      using None by (simp add: exec_fs_env fs_exec_def fd)
    from move_tmp_first_ok [OF this, of lp] mv have "rm = Inr True" "wm = ?w3"
      by simp_all
    then show ?thesis
      using ld dd fd f by simp
  next
    case (Some old)
    let ?w2 = "?wp\<lparr>rfiles := (rfiles ?wp)(t := None)\<rparr>"
    let ?w3 = "?w2\<lparr>rfiles := (rfiles ?w2)(t @ ''.tmp'' := None, t \<mapsto> content)\<rparr>"
    have r1: "exec fs_env (Rename (t @ ''.tmp'') t) ?wp = (Inl (IOError ''Failure''), ?wp)"
      using Some by (simp add: exec_fs_env fs_exec_def fd)
    have r2: "exec fs_env (Remove t) ?wp = (Inr (), ?w2)"
      using Some by (simp add: exec_fs_env fs_exec_def fd)
    have r3: "exec fs_env (Rename (t @ ''.tmp'') t) ?w2 = (Inr (), ?w3)"
      by (simp add: exec_fs_env fs_exec_def fd)
    from move_tmp_retry_ok [OF r1 r2 r3, of lp] mv have "rm = Inr True" "wm = ?w3"
      by simp_all
    then show ?thesis
      using ld dd fd f by simp
  qed
  have body: "upload_body fs_env lp t w =
     (Inr (), wm, d @ Call (Put lp (t @ ''.tmp'')) (Inr ()) # m @ [Print (uploaded_line lp t)])"
    using upload_body_move [OF dir [unfolded rd] put mv] mv_ok by simp
  have "atomic_upload fs_env lp rp w =
     (Inr (), wm, d @ Call (Put lp (t @ ''.tmp'')) (Inr ()) # m @ [Print (uploaded_line lp t)])"
    by (simp add: atomic_upload_def t [symmetric] Let_def py_try_def body)
  with run mv_ok show ?thesis
    by simp
qed

lemma path_split: "p = rev (dropWhile (\<lambda>c. c \<noteq> CHR ''/'') (rev p)) @ basename p"
proof -
  have "rev (takeWhile (\<lambda>c. c \<noteq> CHR ''/'') (rev p) @ dropWhile (\<lambda>c. c \<noteq> CHR ''/'') (rev p)) = p"
    by (simp only: takeWhile_dropWhile_id rev_rev_ident)
  then show ?thesis
    by (simp only: rev_append basename_def)
qed

lemma dirname_length: "length (dirname p) + length (basename p) \<le> length p"
proof -
  let ?head = "rev (dropWhile (\<lambda>c. c \<noteq> CHR ''/'') (rev p))"
  have "length ?head + length (basename p) = length p"
    using path_split [of p] by (metis length_append)
  moreover have "length (rstrip_slash ?head) \<le> length ?head"
    by (simp add: rstrip_slash_def length_dropWhile_le)
  moreover have "dirname p = ?head \<or> dirname p = rstrip_slash ?head"
    by (simp add: dirname_def Let_def)
  ultimately show ?thesis
    by auto
qed

lemma dirname_neq: "basename p \<noteq> [] \<Longrightarrow> dirname p \<noteq> p"
  using dirname_length [of p] by (cases "basename p") auto

lemma basename_tmp: "basename (p @ ''.tmp'') \<noteq> []"
  by (simp add: basename_def)

lemma download_target_basename: "basename (download_target E rp lp w) \<noteq> []"
  by (simp add: download_target_def Let_def basename_tmp)

lemma download_body_ok_nodir:
  "\<not> (dirname t \<noteq> [] \<and> dirname t \<noteq> ''.'') \<Longrightarrow>
   exec E (Get rp (t @ ''.tmp'')) w = (Inr (), wb) \<Longrightarrow>
   exec E (Replace (t @ ''.tmp'') t) wb = (Inr (), wc) \<Longrightarrow>
   download_body E rp t w =
     (Inr (), wc, [Call (Get rp (t @ ''.tmp'')) (Inr ()),
                   Call (Replace (t @ ''.tmp'') t) (Inr ()), Print (downloaded_line rp t)])"
  by (auto simp: download_body_def py_defs Let_def)

lemma download_body_ok_dir:
  "dirname t \<noteq> [] \<and> dirname t \<noteq> ''.'' \<Longrightarrow>
   exec E (Makedirs (dirname t)) w = (Inr (), wa) \<Longrightarrow>
   exec E (Get rp (t @ ''.tmp'')) wa = (Inr (), wb) \<Longrightarrow>
   exec E (Replace (t @ ''.tmp'') t) wb = (Inr (), wc) \<Longrightarrow>
   download_body E rp t w =
     (Inr (), wc, [Call (Makedirs (dirname t)) (Inr ()), Call (Get rp (t @ ''.tmp'')) (Inr ()),
                   Call (Replace (t @ ''.tmp'') t) (Inr ()), Print (downloaded_line rp t)])"
  by (auto simp: download_body_def py_defs Let_def)

lemma download_fs_clean:
  assumes f: "faults w = Map.empty"
    and c: "rfiles w rpath = Some content"
    and run: "atomic_download fs_env rpath lp w = (r, w2, evs)"
    and t2: "t2 = download_target fs_env rpath lp w"
    and no_file: "dirname t2 = [] \<or> dirname t2 = ''.'' \<or> lfiles w (dirname t2) = None"
    and no_dir: "t2 \<notin> ldirs w"
  shows "r = Inr () \<and> lfiles w2 t2 = Some content \<and> lfiles w2 (t2 @ ''.tmp'') = None
       \<and> rfiles w2 = rfiles w"
proof -
  have neq: "dirname t2 \<noteq> t2"
    unfolding t2 by (rule dirname_neq) (rule download_target_basename)
  have run': "py_try (download_body fs_env rpath t2) (download_handler fs_env rpath t2) w
              = (r, w2, evs)"
    using run by (simp add: atomic_download_def Let_def t2)
  show ?thesis
  proof (cases "dirname t2 \<noteq> [] \<and> dirname t2 \<noteq> ''.''")
    case False
    let ?wb = "w\<lparr>lfiles := (lfiles w)(t2 @ ''.tmp'' \<mapsto> content)\<rparr>"
    let ?wc = "?wb\<lparr>lfiles := (lfiles ?wb)(t2 @ ''.tmp'' := None, t2 \<mapsto> content)\<rparr>"
    have g: "exec fs_env (Get rpath (t2 @ ''.tmp'')) w = (Inr (), ?wb)"
      by (simp add: exec_fs_env fs_exec_def f c)
    have p: "exec fs_env (Replace (t2 @ ''.tmp'') t2) ?wb = (Inr (), ?wc)"
      by (simp add: exec_fs_env fs_exec_def f no_dir)
    from download_body_ok_nodir [OF False g p] run' have "r = Inr ()" "w2 = ?wc"
      by (simp_all add: py_try_def)
    then show ?thesis
      by simp
  next
    case True
    with no_file have nf: "lfiles w (dirname t2) = None"
      by simp
    let ?wa = "w\<lparr>ldirs := insert (dirname t2) (ldirs w)\<rparr>"
    let ?wb = "?wa\<lparr>lfiles := (lfiles ?wa)(t2 @ ''.tmp'' \<mapsto> content)\<rparr>"
    let ?wc = "?wb\<lparr>lfiles := (lfiles ?wb)(t2 @ ''.tmp'' := None, t2 \<mapsto> content)\<rparr>"
    have m: "exec fs_env (Makedirs (dirname t2)) w = (Inr (), ?wa)"
      by (simp add: exec_fs_env fs_exec_def f nf)
    have g: "exec fs_env (Get rpath (t2 @ ''.tmp'')) ?wa = (Inr (), ?wb)"
      by (simp add: exec_fs_env fs_exec_def f c)
    have p: "exec fs_env (Replace (t2 @ ''.tmp'') t2) ?wb = (Inr (), ?wc)"
      using neq by (simp add: exec_fs_env fs_exec_def f no_dir)
    from download_body_ok_dir [OF True m g p] run' have "r = Inr ()" "w2 = ?wc"
      by (simp_all add: py_try_def)
    then show ?thesis
      by simp
  qed
qed

text \<open>
  Claim C9.  On the reference transport with no injected failure, take a local file
  with content \<open>content\<close>, upload it, and download the uploaded file back to a path
  whose parent directory is not occupied by a file and which is not itself a directory.
  Both transfers succeed, the downloaded file holds exactly \<open>content\<close>, the remote file
  holds \<open>content\<close>, and neither the remote temporary path nor the local temporary path
  holds a file afterwards.
\<close>

theorem upload_download_round_trip:
  assumes f: "faults w = Map.empty"
    and c: "lfiles w local_path = Some content"
    and up: "atomic_upload fs_env local_path remote_path w = (r1, w1, evs1)"
    and t: "t = upload_target local_path remote_path"
    and down: "atomic_download fs_env t local_back w1 = (r2, w2, evs2)"
    and t2: "t2 = download_target fs_env t local_back w1"
    and no_file: "dirname t2 = [] \<or> dirname t2 = ''.'' \<or> lfiles w (dirname t2) = None"
    and no_dir: "t2 \<notin> ldirs w"
  shows "r1 = Inr () \<and> r2 = Inr ()
       \<and> lfiles w2 t2 = Some content \<and> rfiles w2 t = Some content
       \<and> rfiles w2 (t @ ''.tmp'') = None \<and> lfiles w2 (t2 @ ''.tmp'') = None"
proof -
  from upload_fs_clean [OF f c up t]
  have r1: "r1 = Inr ()" and rt: "rfiles w1 t = Some content"
    and rtmp: "rfiles w1 (t @ ''.tmp'') = None"
    and l1: "lfiles w1 = lfiles w" and d1: "ldirs w1 = ldirs w" and f1: "faults w1 = faults w"
    by simp_all
  have f1': "faults w1 = Map.empty"
    using f1 f by simp
  have no_file1: "dirname t2 = [] \<or> dirname t2 = ''.'' \<or> lfiles w1 (dirname t2) = None"
    using no_file l1 by simp
  have no_dir1: "t2 \<notin> ldirs w1"
    using no_dir d1 by simp
  from download_fs_clean [OF f1' rt down t2 no_file1 no_dir1]
  have "r2 = Inr ()" "lfiles w2 t2 = Some content" "lfiles w2 (t2 @ ''.tmp'') = None"
    "rfiles w2 = rfiles w1"
    by simp_all
  with r1 rt rtmp show ?thesis
    by simp
qed

theorem upload_download_round_trip_witness:
  "fst (atomic_upload fs_env ''/home/u/a.txt'' ''/srv/a.txt'' fs_local_a) = Inr ()
   \<and> lfiles (fst (snd (atomic_download fs_env ''/srv/a.txt'' ''/home/u/a.txt''
               (fst (snd (atomic_upload fs_env ''/home/u/a.txt'' ''/srv/a.txt'' fs_local_a))))))
        ''/home/u/a.txt'' = Some ''hi''
   \<and> rfiles (fst (snd (atomic_download fs_env ''/srv/a.txt'' ''/home/u/a.txt''
               (fst (snd (atomic_upload fs_env ''/home/u/a.txt'' ''/srv/a.txt'' fs_local_a))))))
        ''/srv/a.txt.tmp'' = None
   \<and> lfiles (fst (snd (atomic_download fs_env ''/srv/a.txt'' ''/home/u/a.txt''
               (fst (snd (atomic_upload fs_env ''/home/u/a.txt'' ''/srv/a.txt'' fs_local_a))))))
        ''/home/u/a.txt.tmp'' = None"
proof -
  let ?U = "atomic_upload fs_env ''/home/u/a.txt'' ''/srv/a.txt'' fs_local_a"
  let ?w1 = "fst (snd ?U)"
  let ?D = "atomic_download fs_env ''/srv/a.txt'' ''/home/u/a.txt'' ?w1"
  have f: "faults fs_local_a = Map.empty" and c: "lfiles fs_local_a ''/home/u/a.txt'' = Some ''hi''"
    by (simp_all add: fs_local_a_fields)
  have up: "?U = (fst ?U, ?w1, snd (snd ?U))"
    by simp
  have t: "''/srv/a.txt'' = upload_target ''/home/u/a.txt'' ''/srv/a.txt''"
    by (simp add: upload_target_srv_a)
  have down: "?D = (fst ?D, fst (snd ?D), snd (snd ?D))"
    by simp
  have "ldirs ?w1 = ldirs fs_local_a"
    using upload_fs_clean [OF f c up t] by simp
  then have "ldirs ?w1 = {}"
    by (simp add: fs_local_a_fields)
  then have t2: "''/home/u/a.txt'' = download_target fs_env ''/srv/a.txt'' ''/home/u/a.txt'' ?w1"
    by (simp add: target_home_u_a)
  have no_file: "dirname ''/home/u/a.txt'' = [] \<or> dirname ''/home/u/a.txt'' = ''.''
                 \<or> lfiles fs_local_a (dirname ''/home/u/a.txt'') = None"
    by (simp add: dirname_home_u_a fs_local_a_fields)
  have no_dir: "''/home/u/a.txt'' \<notin> ldirs fs_local_a"
    by (simp add: fs_local_a_fields)
  from upload_download_round_trip [OF f c up t down t2 no_file no_dir]
  show ?thesis
    by simp
qed



section \<open>Where the atomic transfers write\<close>








end
